theory Spec2Isabelle
  imports Complex_Main "HOL-Library.Word"
begin

unbundle bit_operations_syntax

section \<open>JavaScript values\<close>

text \<open>
  The parser (class \<open>FontParser\<close>, \<^verbatim>\<open>src/unnamed/part_000\<close>) computes with JavaScript
  numbers. A number is modelled as a real (so rounding and overflow of IEEE doubles are
  idealised away), together with the two non-numbers the code can produce: \<open>NaN\<close>, and
  \<open>undefined\<close> (a read past the end of an array, \<open>shift()\<close>/\<open>pop()\<close> on an empty array,
  a missing property). Arithmetic turns \<open>undefined\<close> into \<open>NaN\<close>, as \<open>ToNumber\<close> does.
\<close>

datatype jsval = Num real | NaN | Undefined

fun jadd :: "jsval \<Rightarrow> jsval \<Rightarrow> jsval" where
  "jadd (Num a) (Num b) = Num (a + b)"
| "jadd _ _ = NaN"

fun jsub :: "jsval \<Rightarrow> jsval \<Rightarrow> jsval" where
  "jsub (Num a) (Num b) = Num (a - b)"
| "jsub _ _ = NaN"

fun jmul :: "jsval \<Rightarrow> jsval \<Rightarrow> jsval" where
  "jmul (Num a) (Num b) = Num (a * b)"
| "jmul _ _ = NaN"

fun jneg :: "jsval \<Rightarrow> jsval" where
  "jneg (Num a) = Num (- a)"
| "jneg _ = NaN"

text \<open>Division by a literal of the source (2, 100, 1500, 2000, 65536, 16384), never zero.\<close>

fun jdiv :: "jsval \<Rightarrow> real \<Rightarrow> jsval" where
  "jdiv (Num a) d = Num (a / d)"
| "jdiv _ d = NaN"

text \<open>\<open>v || d\<close>: the default \<open>d\<close> replaces every falsy \<open>v\<close> (0, NaN, undefined).\<close>

fun jor :: "jsval \<Rightarrow> jsval \<Rightarrow> jsval" where
  "jor (Num a) d = (if a = 0 then d else Num a)"
| "jor _ d = d"

text \<open>\<open>Math.min\<close>, \<open>Math.max\<close> (a non-number argument gives NaN) and \<open>Math.round\<close>.\<close>

fun jmin :: "jsval \<Rightarrow> jsval \<Rightarrow> jsval" where
  "jmin (Num a) (Num b) = Num (min a b)"
| "jmin _ _ = NaN"

fun jmax :: "jsval \<Rightarrow> jsval \<Rightarrow> jsval" where
  "jmax (Num a) (Num b) = Num (max a b)"
| "jmax _ _ = NaN"

fun jround :: "jsval \<Rightarrow> jsval" where
  "jround (Num a) = Num (of_int \<lfloor>a + 1 / 2\<rfloor>)"
| "jround _ = NaN"

text \<open>
  The bitwise operators work on 32-bit two's-complement integers: \<open>a << k\<close> wraps into
  that range, \<open>a | b\<close> of two such integers stays in it.
\<close>

definition jsShl :: "int \<Rightarrow> nat \<Rightarrow> int" where
  "jsShl a k = signed_take_bit 31 (push_bit k a)"

definition jsOr :: "int \<Rightarrow> int \<Rightarrow> int" where
  "jsOr a b = a OR b"

section \<open>Bytes and operand decoding (CFF DICT and CharString)\<close>

type_synonym byte = "8 word"

text \<open>\<open>data[i]\<close> on an array of bytes: \<open>None\<close> stands for \<open>undefined\<close> (index out of range).\<close>

definition byteAt :: "byte list \<Rightarrow> nat \<Rightarrow> int option" where
  "byteAt data i = (if i < length data then Some (uint (data ! i)) else None)"

text \<open>The same element as an operand of \<open>+\<close>/\<open>-\<close>, and as an operand of \<open><<\<close>/\<open>|\<close>
  (\<open>ToInt32 undefined = 0\<close>).\<close>

definition numAt :: "byte list \<Rightarrow> nat \<Rightarrow> jsval" where
  "numAt data i = (case byteAt data i of None \<Rightarrow> Undefined | Some b \<Rightarrow> Num (of_int b))"

definition int32At :: "byte list \<Rightarrow> nat \<Rightarrow> int" where
  "int32At data i = (case byteAt data i of None \<Rightarrow> 0 | Some b \<Rightarrow> b)"

text \<open>\<open>readDictOperand(data, index)\<close> returns \<open>{value, nextIndex}\<close>.\<close>

definition readDictOperand :: "byte list \<Rightarrow> nat \<Rightarrow> jsval \<times> nat" where
  "readDictOperand data index =
     (case byteAt data index of
        None \<Rightarrow> (Num 0, index + 1)
      | Some b0 \<Rightarrow>
          if 32 \<le> b0 \<and> b0 \<le> 246 then (Num (of_int (b0 - 139)), index + 1)
          else if 247 \<le> b0 \<and> b0 \<le> 250 then
            (jadd (jadd (Num (of_int ((b0 - 247) * 256))) (numAt data (index + 1))) (Num 108),
             index + 2)
          else if 251 \<le> b0 \<and> b0 \<le> 254 then
            (jsub (jsub (Num (of_int (- (b0 - 251) * 256))) (numAt data (index + 1))) (Num 108),
             index + 2)
          else if b0 = 28 then
            (Num (of_int (jsOr (jsShl (int32At data (index + 1)) 8) (int32At data (index + 2)))),
             index + 3)
          else if b0 = 29 then
            (Num (of_int
               (jsOr (jsOr (jsOr (jsShl (int32At data (index + 1)) 24)
                                 (jsShl (int32At data (index + 2)) 16))
                           (jsShl (int32At data (index + 3)) 8))
                     (int32At data (index + 4)))),
             index + 5)
          else (Num 0, index + 1))"

text \<open>\<open>readCharStringOperand(data, index)\<close>: the same ranges, with 255 (a 16.16 fixed
  point number) in place of 29.\<close>

definition readCharStringOperand :: "byte list \<Rightarrow> nat \<Rightarrow> jsval \<times> nat" where
  "readCharStringOperand data index =
     (case byteAt data index of
        None \<Rightarrow> (Num 0, index + 1)
      | Some b0 \<Rightarrow>
          if 32 \<le> b0 \<and> b0 \<le> 246 then (Num (of_int (b0 - 139)), index + 1)
          else if 247 \<le> b0 \<and> b0 \<le> 250 then
            (jadd (jadd (Num (of_int ((b0 - 247) * 256))) (numAt data (index + 1))) (Num 108),
             index + 2)
          else if 251 \<le> b0 \<and> b0 \<le> 254 then
            (jsub (jsub (Num (of_int (- (b0 - 251) * 256))) (numAt data (index + 1))) (Num 108),
             index + 2)
          else if b0 = 28 then
            (Num (of_int (jsOr (jsShl (int32At data (index + 1)) 8) (int32At data (index + 2)))),
             index + 3)
          else if b0 = 255 then
            (Num (of_int
               (jsOr (jsOr (jsOr (jsShl (int32At data (index + 1)) 24)
                                 (jsShl (int32At data (index + 2)) 16))
                           (jsShl (int32At data (index + 3)) 8))
                     (int32At data (index + 4))) / 65536),
             index + 5)
          else (Num 0, index + 1))"

section \<open>The binary cursor\<close>

text \<open>
  The reading methods work on \<open>this.dataView\<close> (the bytes of the font) and \<open>this.offset\<close>.
  Each is modelled as a function of the bytes and the offset that returns the value read
  with the new offset, or the error thrown.
\<close>

datatype error =
    UnexpectedEnd
  | InvalidSeek nat
  | UnsupportedCmapFormat nat
  | MissingTable string
  | TypeError
  | CallStackExceeded

type_synonym 'a reading = "error + 'a \<times> nat"

definition rbind :: "'a reading \<Rightarrow> ('a \<Rightarrow> nat \<Rightarrow> 'b reading) \<Rightarrow> 'b reading" where
  "rbind r f = (case r of Inl e \<Rightarrow> Inl e | Inr (a, off) \<Rightarrow> f a off)"

definition readUint8 :: "byte list \<Rightarrow> nat \<Rightarrow> nat reading" where
  "readUint8 buf off =
     (if off \<ge> length buf then Inl UnexpectedEnd else Inr (unat (buf ! off), off + 1))"

definition readInt8 :: "byte list \<Rightarrow> nat \<Rightarrow> int reading" where
  "readInt8 buf off =
     (if off \<ge> length buf then Inl UnexpectedEnd else Inr (sint (buf ! off), off + 1))"

definition readUint16 :: "byte list \<Rightarrow> nat \<Rightarrow> nat reading" where
  "readUint16 buf off =
     (if off + 1 \<ge> length buf then Inl UnexpectedEnd
      else Inr (unat (buf ! off) * 256 + unat (buf ! (off + 1)), off + 2))"

definition readInt16 :: "byte list \<Rightarrow> nat \<Rightarrow> int reading" where
  "readInt16 buf off =
     (if off + 1 \<ge> length buf then Inl UnexpectedEnd
      else Inr (sint (buf ! off) * 256 + uint (buf ! (off + 1)), off + 2))"

definition readUint32 :: "byte list \<Rightarrow> nat \<Rightarrow> nat reading" where
  "readUint32 buf off =
     (if off + 3 \<ge> length buf then Inl UnexpectedEnd
      else Inr (((unat (buf ! off) * 256 + unat (buf ! (off + 1))) * 256
                  + unat (buf ! (off + 2))) * 256 + unat (buf ! (off + 3)), off + 4))"

definition readInt32 :: "byte list \<Rightarrow> nat \<Rightarrow> int reading" where
  "readInt32 buf off =
     (if off + 3 \<ge> length buf then Inl UnexpectedEnd
      else Inr (((sint (buf ! off) * 256 + uint (buf ! (off + 1))) * 256
                  + uint (buf ! (off + 2))) * 256 + uint (buf ! (off + 3)), off + 4))"

definition readFixed :: "byte list \<Rightarrow> nat \<Rightarrow> real reading" where
  "readFixed buf off = rbind (readInt32 buf off) (\<lambda>v off1. Inr (real_of_int v / 65536, off1))"

definition readF2Dot14 :: "byte list \<Rightarrow> nat \<Rightarrow> real reading" where
  "readF2Dot14 buf off = rbind (readInt16 buf off) (\<lambda>v off1. Inr (real_of_int v / 16384, off1))"

definition readTag :: "byte list \<Rightarrow> nat \<Rightarrow> string reading" where
  "readTag buf off =
     rbind (readUint8 buf off) (\<lambda>a off1.
     rbind (readUint8 buf off1) (\<lambda>b off2.
     rbind (readUint8 buf off2) (\<lambda>c off3.
     rbind (readUint8 buf off3) (\<lambda>d off4.
       Inr ([char_of a, char_of b, char_of c, char_of d], off4)))))"

text \<open>\<open>seek(offset)\<close>; the offsets the modelled code seeks to are sums of unsigned
  numbers, so the test \<open>offset < 0\<close> never fires.\<close>

definition seek :: "byte list \<Rightarrow> nat \<Rightarrow> error + nat" where
  "seek buf off = (if off \<ge> length buf then Inl (InvalidSeek off) else Inr off)"

text \<open>\<open>Array.from({ length: n }, () => read())\<close>.\<close>

fun readArray :: "(nat \<Rightarrow> 'a reading) \<Rightarrow> nat \<Rightarrow> nat \<Rightarrow> 'a list reading" where
  "readArray rd 0 off = Inr ([], off)"
| "readArray rd (Suc n) off =
     rbind (rd off) (\<lambda>a off1. rbind (readArray rd n off1) (\<lambda>as off2. Inr (a # as, off2)))"

section \<open>The character map (cmap)\<close>

text \<open>
  One code point of a format-4 segment: the glyph index the loop body of
  \<open>_parseCmapFormat4\<close> computes for \<open>c\<close> in segment \<open>i\<close> (0 when the glyph array holds 0).
  \<open>(n + idDelta) & 0xffff\<close> is the sum modulo 65536.
\<close>

definition format4GlyphIndex ::
  "byte list \<Rightarrow> nat \<Rightarrow> nat \<Rightarrow> nat \<Rightarrow> int \<Rightarrow> nat \<Rightarrow> nat \<Rightarrow> error + nat" where
  "format4GlyphIndex buf idRangeOffsetStart i startCode_i idDelta_i idRangeOffset_i c =
     (if idRangeOffset_i = 0 then Inr (nat ((int c + idDelta_i) mod 65536))
      else
        (case seek buf (idRangeOffsetStart + i * 2 + idRangeOffset_i + (c - startCode_i) * 2) of
           Inl e \<Rightarrow> Inl e
         | Inr off \<Rightarrow>
             (case readUint16 buf off of
                Inl e \<Rightarrow> Inl e
              | Inr (glyphIndexFromArray, off1) \<Rightarrow>
                  Inr (if glyphIndexFromArray \<noteq> 0
                       then nat ((int glyphIndexFromArray + idDelta_i) mod 65536) else 0))))"

text \<open>The inner loop \<open>for (c = startCode[i]; c <= endCode[i]; c++)\<close>, over the code points
  still to do; a glyph index is stored only when it is not 0.\<close>

fun format4Chars ::
  "byte list \<Rightarrow> nat \<Rightarrow> nat \<Rightarrow> nat \<Rightarrow> int \<Rightarrow> nat \<Rightarrow> nat list \<Rightarrow> (nat \<rightharpoonup> nat)
     \<Rightarrow> error + (nat \<rightharpoonup> nat)" where
  "format4Chars buf rs i sc dl ro [] m = Inr m"
| "format4Chars buf rs i sc dl ro (c # cs) m =
     (case format4GlyphIndex buf rs i sc dl ro c of
        Inl e \<Rightarrow> Inl e
      | Inr glyphIndex \<Rightarrow>
          format4Chars buf rs i sc dl ro cs (if glyphIndex \<noteq> 0 then m(c \<mapsto> glyphIndex) else m))"

text \<open>The outer loop over the segments \<open>i\<close>.\<close>

fun format4Segments ::
  "byte list \<Rightarrow> nat \<Rightarrow> nat list \<Rightarrow> nat list \<Rightarrow> int list \<Rightarrow> nat list \<Rightarrow> nat list
     \<Rightarrow> (nat \<rightharpoonup> nat) \<Rightarrow> error + (nat \<rightharpoonup> nat)" where
  "format4Segments buf rs endCode startCode idDelta idRangeOffset [] m = Inr m"
| "format4Segments buf rs endCode startCode idDelta idRangeOffset (i # is) m =
     (case format4Chars buf rs i (startCode ! i) (idDelta ! i) (idRangeOffset ! i)
             [startCode ! i ..< Suc (endCode ! i)] m of
        Inl e \<Rightarrow> Inl e
      | Inr m1 \<Rightarrow> format4Segments buf rs endCode startCode idDelta idRangeOffset is m1)"

text \<open>
  \<open>_parseCmapFormat4\<close>, entered with the offset just after the format field. When
  \<open>segCountX2\<close> is odd, \<open>segCount\<close> is a fraction: \<open>Array.from\<close> rounds the length down and
  the extra turn of the segment loop finds \<open>undefined <= undefined\<close> false, so the
  segments are those below \<open>segCountX2 div 2\<close>.
\<close>

definition parseCmapFormat4 ::
  "byte list \<Rightarrow> nat \<Rightarrow> (nat \<rightharpoonup> nat) \<Rightarrow> error + (nat \<rightharpoonup> nat)" where
  "parseCmapFormat4 buf off m =
     (case
        rbind (readUint16 buf (off + 4)) (\<lambda>segCountX2 off1.
        rbind (readArray (readUint16 buf) (segCountX2 div 2) (off1 + 6)) (\<lambda>endCode off2.
        rbind (readUint16 buf off2) (\<lambda>reservedPad off3.
        rbind (readArray (readUint16 buf) (segCountX2 div 2) off3) (\<lambda>startCode off4.
        rbind (readArray (readInt16 buf) (segCountX2 div 2) off4) (\<lambda>idDelta idRangeOffsetStart.
        rbind (readArray (readUint16 buf) (segCountX2 div 2) idRangeOffsetStart)
          (\<lambda>idRangeOffset off5.
             Inr ((segCountX2 div 2, endCode, startCode, idDelta, idRangeOffsetStart,
                   idRangeOffset), off5))))))) of
        Inl e \<Rightarrow> Inl e
      | Inr ((segCount, endCode, startCode, idDelta, idRangeOffsetStart, idRangeOffset), off5) \<Rightarrow>
          format4Segments buf idRangeOffsetStart endCode startCode idDelta idRangeOffset
            [0 ..< segCount] m)"

text \<open>\<open>_parseCmapFormat12\<close>: the inner loop stores \<open>startGlyphID + (c - startCharCode)\<close> for
  every code point of the group.\<close>

fun format12Chars :: "nat \<Rightarrow> nat \<Rightarrow> nat list \<Rightarrow> (nat \<rightharpoonup> nat) \<Rightarrow> (nat \<rightharpoonup> nat)" where
  "format12Chars startCharCode startGlyphID [] m = m"
| "format12Chars startCharCode startGlyphID (c # cs) m =
     format12Chars startCharCode startGlyphID cs (m(c \<mapsto> startGlyphID + (c - startCharCode)))"

fun format12Groups ::
  "byte list \<Rightarrow> nat \<Rightarrow> nat \<Rightarrow> (nat \<rightharpoonup> nat) \<Rightarrow> error + (nat \<rightharpoonup> nat)" where
  "format12Groups buf 0 off m = Inr m"
| "format12Groups buf (Suc n) off m =
     (case
        rbind (readUint32 buf off) (\<lambda>startCharCode off1.
        rbind (readUint32 buf off1) (\<lambda>endCharCode off2.
        rbind (readUint32 buf off2) (\<lambda>startGlyphID off3.
          Inr ((startCharCode, endCharCode, startGlyphID), off3)))) of
        Inl e \<Rightarrow> Inl e
      | Inr ((startCharCode, endCharCode, startGlyphID), off3) \<Rightarrow>
          format12Groups buf n off3
            (format12Chars startCharCode startGlyphID [startCharCode ..< Suc endCharCode] m))"

definition parseCmapFormat12 ::
  "byte list \<Rightarrow> nat \<Rightarrow> (nat \<rightharpoonup> nat) \<Rightarrow> error + (nat \<rightharpoonup> nat)" where
  "parseCmapFormat12 buf off m =
     (case readUint32 buf (off + 8) of
        Inl e \<Rightarrow> Inl e
      | Inr (numGroups, off1) \<Rightarrow> format12Groups buf numGroups off1 m)"

text \<open>\<open>_parseCmapSubtable(offset)\<close>: seek, read the format, dispatch.\<close>

definition parseCmapSubtable ::
  "byte list \<Rightarrow> nat \<Rightarrow> (nat \<rightharpoonup> nat) \<Rightarrow> error + (nat \<rightharpoonup> nat)" where
  "parseCmapSubtable buf subtableOffset m =
     (case seek buf subtableOffset of
        Inl e \<Rightarrow> Inl e
      | Inr off \<Rightarrow>
          (case readUint16 buf off of
             Inl e \<Rightarrow> Inl e
           | Inr (format, off1) \<Rightarrow>
               if format = 4 then parseCmapFormat4 buf off1 m
               else if format = 12 then parseCmapFormat12 buf off1 m
               else Inl (UnsupportedCmapFormat format)))"

text \<open>
  \<open>parseCmapFormat12(offset)\<close> of \<^verbatim>\<open>src/tests/static-font-parser.js\<close>, the parser the
  class was refactored from: it seeks to the subtable itself and reads every header field.
  Its reading methods call the \<open>DataView\<close> without a test of their own; the \<open>DataView\<close>
  throws at the same offsets.
\<close>

definition static_parseCmapFormat12 ::
  "byte list \<Rightarrow> nat \<Rightarrow> (nat \<rightharpoonup> nat) \<Rightarrow> error + (nat \<rightharpoonup> nat)" where
  "static_parseCmapFormat12 buf off m =
     (case
        rbind (readUint16 buf off) (\<lambda>format off1.
        rbind (readUint16 buf off1) (\<lambda>reserved off2.
        rbind (readUint32 buf off2) (\<lambda>len off3.
        rbind (readUint32 buf off3) (\<lambda>language off4.
        readUint32 buf off4)))) of
        Inl e \<Rightarrow> Inl e
      | Inr (numGroups, off5) \<Rightarrow> format12Groups buf numGroups off5 m)"

section \<open>The parser object\<close>

text \<open>
  A point of a contour: \<open>{x, y, onCurve}\<close>, with \<open>cubic: true\<close> and the control points
  \<open>x1, y1, x2, y2\<close> when it ends a cubic segment.
\<close>

record point =
  px :: jsval
  py :: jsval
  onCurve :: bool
  cubic :: "(jsval \<times> jsval \<times> jsval \<times> jsval) option"

text \<open>
  Of a glyph object the contour list is modelled. Its other fields (the bounding box
  \<open>xMin, yMin, xMax, yMax\<close> and the constant \<open>instructions: []\<close>) are read by none of
  the operations below, and are left out.
\<close>

record glyph =
  contours :: "point list list"

record axis =
  axisTag :: string
  axisMin :: real
  axisDefault :: real
  axisMax :: real
  axisFlags :: nat
  axisNameID :: nat

record metrics =
  advanceWidth :: jsval
  leftSideBearing :: jsval

datatype fonttype = TrueType | CFF

text \<open>
  The fields of a \<open>FontParser\<close> that the modelled methods read or write. A table record
  is its \<open>(offset, length)\<close>; \<open>charToGlyph\<close> and \<open>glyphCache\<close> are the two \<open>Map\<close>s,
  \<open>currentAxisValues\<close> the object keyed by axis tag.
\<close>

record parser =
  buffer :: "byte list"
  offset :: nat
  tables :: "string \<rightharpoonup> nat \<times> nat"
  fontType :: "fonttype option"
  unitsPerEm :: nat
  horizontalMetrics :: "metrics list"
  charToGlyph :: "nat \<rightharpoonup> nat"
  glyphCache :: "nat \<rightharpoonup> glyph"
  glyphOffsets :: "nat list"
  isVariableFont :: bool
  variationAxes :: "axis list"
  currentAxisValues :: "string \<rightharpoonup> jsval"
  cffCharStrings :: "byte list list"
  cffGlobalSubrs :: "byte list list"
  cffLocalSubrs :: "byte list list"
  cffGlobalBias :: nat
  cffLocalBias :: nat

text \<open>The state the constructor leaves.\<close>

definition newParser :: parser where
  "newParser =
     \<lparr> buffer = [], offset = 0, tables = Map.empty, fontType = None, unitsPerEm = 1000,
       horizontalMetrics = [], charToGlyph = Map.empty, glyphCache = Map.empty,
       glyphOffsets = [], isVariableFont = False, variationAxes = [],
       currentAxisValues = Map.empty, cffCharStrings = [], cffGlobalSubrs = [],
       cffLocalSubrs = [], cffGlobalBias = 107, cffLocalBias = 107 \<rparr>"

text \<open>A property of \<open>currentAxisValues\<close> that may be missing.\<close>

definition axisValue :: "parser \<Rightarrow> string \<Rightarrow> jsval" where
  "axisValue f t = (case currentAxisValues f t of None \<Rightarrow> Undefined | Some v \<Rightarrow> v)"

section \<open>Variation axes\<close>

text \<open>
  \<open>_parseFvarTable\<close>: the axis records (\<open>readAxis\<close> reads one), each also setting
  \<open>currentAxisValues[axis.tag]\<close> to the axis default. The \<open>this.offset += 6\<close> before the
  second \<open>seek\<close> has no effect and is left out.
\<close>

definition readAxis :: "byte list \<Rightarrow> nat \<Rightarrow> axis reading" where
  "readAxis buf off =
     rbind (readTag buf off) (\<lambda>t off1.
     rbind (readFixed buf off1) (\<lambda>mn off2.
     rbind (readFixed buf off2) (\<lambda>df off3.
     rbind (readFixed buf off3) (\<lambda>mx off4.
     rbind (readUint16 buf off4) (\<lambda>fl off5.
     rbind (readUint16 buf off5) (\<lambda>nm off6.
       Inr (\<lparr> axisTag = t, axisMin = mn, axisDefault = df, axisMax = mx,
              axisFlags = fl, axisNameID = nm \<rparr>, off6)))))))"

fun setDefaults :: "axis list \<Rightarrow> (string \<rightharpoonup> jsval) \<Rightarrow> (string \<rightharpoonup> jsval)" where
  "setDefaults [] cur = cur"
| "setDefaults (a # as) cur = setDefaults as (cur(axisTag a \<mapsto> Num (axisDefault a)))"

definition parseFvarTable :: "parser \<Rightarrow> error + parser" where
  "parseFvarTable f =
     (case tables f ''fvar'' of
        None \<Rightarrow> Inl (MissingTable ''fvar'')
      | Some (fvarOffset, fvarLength) \<Rightarrow>
          (case
             rbind (case seek (buffer f) (fvarOffset + 4) of
                      Inl e \<Rightarrow> Inl e | Inr off \<Rightarrow> readUint16 (buffer f) off)
               (\<lambda>axesArrayOffset off1.
             rbind (readUint16 (buffer f) off1) (\<lambda>reserved off2.
             rbind (readUint16 (buffer f) off2) (\<lambda>axisCount off3.
             (case seek (buffer f) (fvarOffset + axesArrayOffset) of
                Inl e \<Rightarrow> Inl e
              | Inr off4 \<Rightarrow> readArray (readAxis (buffer f)) axisCount off4)))) of
             Inl e \<Rightarrow> Inl e
           | Inr (axes, off5) \<Rightarrow>
               Inr (f\<lparr> offset := off5, variationAxes := axes,
                       currentAxisValues := setDefaults axes (currentAxisValues f) \<rparr>)))"

text \<open>\<open>_parseVariableFontTables\<close>: the font is variable exactly when it has an
  \<open>fvar\<close> table.\<close>

definition parseVariableFontTables :: "parser \<Rightarrow> error + parser" where
  "parseVariableFontTables f =
     (if tables f ''fvar'' \<noteq> None
      then parseFvarTable (f\<lparr> isVariableFont := True, currentAxisValues := Map.empty \<rparr>)
      else Inr (f\<lparr> isVariableFont := False \<rparr>))"

text \<open>
  \<open>setVariation(axisValues)\<close>. The argument is an object; its entries
  (\<open>Object.entries\<close>) are a list of tag and value, each tag once. \<open>find\<close> takes the
  first axis with the tag.
\<close>

fun setAxisEntries ::
  "axis list \<Rightarrow> (string \<times> jsval) list \<Rightarrow> (string \<rightharpoonup> jsval) \<Rightarrow> (string \<rightharpoonup> jsval)" where
  "setAxisEntries axes [] cur = cur"
| "setAxisEntries axes ((t, v) # rest) cur =
     setAxisEntries axes rest
       (case find (\<lambda>a. axisTag a = t) axes of
          Some a \<Rightarrow> cur(t \<mapsto> jmax (Num (axisMin a)) (jmin (Num (axisMax a)) v))
        | None \<Rightarrow> cur)"

definition setVariation :: "parser \<Rightarrow> (string \<times> jsval) list \<Rightarrow> parser" where
  "setVariation f axisValues =
     (if \<not> isVariableFont f then f
      else f\<lparr> currentAxisValues :=
                 setAxisEntries (variationAxes f) axisValues (currentAxisValues f),
               glyphCache := Map.empty \<rparr>)"

section \<open>Glyph index and metrics\<close>

text \<open>\<open>getGlyphId\<close> of a code point: \<open>this.charToGlyph.get(codePoint) || 0\<close>.\<close>

definition getGlyphId :: "parser \<Rightarrow> nat \<Rightarrow> nat" where
  "getGlyphId f codePoint = (case charToGlyph f codePoint of None \<Rightarrow> 0 | Some g \<Rightarrow> g)"

text \<open>
  \<open>getGlyphMetrics(glyphId)\<close>. The source computes \<open>weightFactor\<close> and returns an object
  built from \<open>widthFactor\<close> alone; the binding is kept as the source has it.
\<close>

definition getGlyphMetrics :: "parser \<Rightarrow> nat \<Rightarrow> metrics" where
  "getGlyphMetrics f glyphId =
     (if glyphId \<ge> length (horizontalMetrics f)
      then \<lparr> advanceWidth = Num (real (unitsPerEm f)), leftSideBearing = Num 0 \<rparr>
      else
        let baseMetrics = horizontalMetrics f ! glyphId in
        if isVariableFont f then
          let wght = jor (axisValue f ''wght'') (Num 150);
              wdth = jor (axisValue f ''wdth'') (Num 100);
              widthFactor = jdiv wdth 100;
              weightFactor = jadd (Num 1) (jdiv (jsub wght (Num 150)) 2000)
          in \<lparr> advanceWidth = jmul (advanceWidth baseMetrics) widthFactor,
               leftSideBearing = jmul (leftSideBearing baseMetrics) widthFactor \<rparr>
        else baseMetrics)"

section \<open>The CharString interpreter\<close>

text \<open>The commands \<open>drawCFF\<close> pushes on \<open>state.path\<close>.\<close>

datatype pathcmd =
    MoveTo jsval jsval
  | LineTo jsval jsval
  | CurveTo jsval jsval jsval jsval jsval jsval
  | ClosePath

text \<open>
  The state object of \<open>drawCFF\<close>: \<open>{stack, x, y, nStems, haveWidth, width, open, path}\<close>.
  The function works on local copies of the scalar fields and writes them back before
  every subroutine call, on \<open>return\<close> and at its end, so one state threaded through
  the interpretation is what caller and callee see.
\<close>

record pen =
  stack :: "jsval list"
  penX :: jsval
  penY :: jsval
  nStems :: nat
  haveWidth :: bool
  width :: jsval
  isOpen :: bool
  path :: "pathcmd list"

definition initialPen :: pen where
  "initialPen = \<lparr> stack = [], penX = Num 0, penY = Num 0, nStems = 0, haveWidth = False,
                    width = Num 0, isOpen = False, path = [] \<rparr>"

text \<open>\<open>this.cffData?.privateDict?.nominalWidthX || 0\<close>: the Private DICT object is built
  with the fields \<open>size\<close> and \<open>offset\<close> only, so this is always 0.\<close>

definition nominalWidthX :: jsval where
  "nominalWidthX = Num 0"

text \<open>\<open>stack.shift()\<close> and \<open>stack.pop()\<close>: the value (\<open>undefined\<close> on an empty stack); the
  stack left is \<open>tl\<close>, respectively \<open>butlast\<close>.\<close>

definition shiftVal :: "jsval list \<Rightarrow> jsval" where
  "shiftVal s = (case s of [] \<Rightarrow> Undefined | v # r \<Rightarrow> v)"

definition popVal :: "jsval list \<Rightarrow> jsval" where
  "popVal s = (if s = [] then Undefined else last s)"

text \<open>\<open>width = stack.shift() + nominalWidthX\<close>.\<close>

definition shiftWidth :: "pen \<Rightarrow> pen" where
  "shiftWidth st = st\<lparr> width := jadd (shiftVal (stack st)) nominalWidthX, stack := tl (stack st) \<rparr>"

definition closeIfOpen :: "pen \<Rightarrow> pen" where
  "closeIfOpen st = (if isOpen st then st\<lparr> path := path st @ [ClosePath] \<rparr> else st)"

text \<open>hstem, hstemhm, vstem, vstemhm (1, 18, 3, 23).\<close>

definition opStem :: "pen \<Rightarrow> pen" where
  "opStem st =
     (let st1 = (if odd (length (stack st)) \<and> \<not> haveWidth st then shiftWidth st else st)
      in st1\<lparr> nStems := nStems st1 + length (stack st1) div 2, stack := [], haveWidth := True \<rparr>)"

text \<open>vmoveto (4), hmoveto (22) and rmoveto (21).\<close>

definition opVmoveto :: "pen \<Rightarrow> pen" where
  "opVmoveto st =
     (let st1 = (if length (stack st) > 1 \<and> \<not> haveWidth st
                 then (shiftWidth st)\<lparr> haveWidth := True \<rparr> else st);
          st2 = closeIfOpen st1;
          y1 = jadd (penY st2) (popVal (stack st2))
      in st2\<lparr> stack := butlast (stack st2), penY := y1,
               path := path st2 @ [MoveTo (penX st2) y1], isOpen := True \<rparr>)"

definition opHmoveto :: "pen \<Rightarrow> pen" where
  "opHmoveto st =
     (let st1 = (if length (stack st) > 1 \<and> \<not> haveWidth st
                 then (shiftWidth st)\<lparr> haveWidth := True \<rparr> else st);
          st2 = closeIfOpen st1;
          x1 = jadd (penX st2) (popVal (stack st2))
      in st2\<lparr> stack := butlast (stack st2), penX := x1,
               path := path st2 @ [MoveTo x1 (penY st2)], isOpen := True \<rparr>)"

definition opRmoveto :: "pen \<Rightarrow> pen" where
  "opRmoveto st =
     (let st1 = (if length (stack st) > 2 \<and> \<not> haveWidth st
                 then (shiftWidth st)\<lparr> haveWidth := True \<rparr> else st);
          st2 = closeIfOpen st1;
          x1 = jadd (penX st2) (shiftVal (stack st2));
          y1 = jadd (penY st2) (shiftVal (tl (stack st2)))
      in st2\<lparr> stack := tl (tl (stack st2)), penX := x1, penY := y1,
               path := path st2 @ [MoveTo x1 y1], isOpen := True \<rparr>)"

text \<open>rlineto (5): \<open>while (stack.length > 0) { x += shift(); y += shift(); push lineto }\<close>.
  With one operand left the second \<open>shift()\<close> is \<open>undefined\<close>.\<close>

fun rlinetoLoop :: "jsval list \<Rightarrow> jsval \<Rightarrow> jsval \<Rightarrow> pathcmd list \<Rightarrow> jsval \<times> jsval \<times> pathcmd list" where
  "rlinetoLoop [] x y p = (x, y, p)"
| "rlinetoLoop [a] x y p =
     (jadd x a, jadd y Undefined, p @ [LineTo (jadd x a) (jadd y Undefined)])"
| "rlinetoLoop (a # b # r) x y p =
     rlinetoLoop r (jadd x a) (jadd y b) (p @ [LineTo (jadd x a) (jadd y b)])"

definition opRlineto :: "pen \<Rightarrow> pen" where
  "opRlineto st =
     (case rlinetoLoop (stack st) (penX st) (penY st) (path st) of
        (x1, y1, p1) \<Rightarrow> st\<lparr> stack := [], penX := x1, penY := y1, path := p1 \<rparr>)"

text \<open>hlineto (6) and vlineto (7): one operand a turn, the axis alternating.\<close>

fun hvlinetoLoop ::
  "bool \<Rightarrow> jsval list \<Rightarrow> jsval \<Rightarrow> jsval \<Rightarrow> pathcmd list \<Rightarrow> jsval \<times> jsval \<times> pathcmd list" where
  "hvlinetoLoop alternate [] x y p = (x, y, p)"
| "hvlinetoLoop alternate (sval # r) x y p =
     (if alternate
      then hvlinetoLoop (\<not> alternate) r (jadd x sval) y (p @ [LineTo (jadd x sval) y])
      else hvlinetoLoop (\<not> alternate) r x (jadd y sval) (p @ [LineTo x (jadd y sval)]))"

definition opHvlineto :: "bool \<Rightarrow> pen \<Rightarrow> pen" where
  "opHvlineto isX st =
     (case hvlinetoLoop isX (stack st) (penX st) (penY st) (path st) of
        (x1, y1, p1) \<Rightarrow> st\<lparr> stack := [], penX := x1, penY := y1, path := p1 \<rparr>)"

text \<open>rrcurveto (8): groups of six operands; fewer than six stay on the stack.\<close>

fun rrcurvetoLoop ::
  "jsval list \<Rightarrow> jsval \<Rightarrow> jsval \<Rightarrow> pathcmd list \<Rightarrow> jsval list \<times> jsval \<times> jsval \<times> pathcmd list" where
  "rrcurvetoLoop (a # b # c # d # e # g # r) x y p =
     (let c1x = jadd x a; c1y = jadd y b; c2x = jadd c1x c; c2y = jadd c1y d;
          x1 = jadd c2x e; y1 = jadd c2y g
      in rrcurvetoLoop r x1 y1 (p @ [CurveTo c1x c1y c2x c2y x1 y1]))"
| "rrcurvetoLoop s x y p = (s, x, y, p)"

definition opRrcurveto :: "pen \<Rightarrow> pen" where
  "opRrcurveto st =
     (case rrcurvetoLoop (stack st) (penX st) (penY st) (path st) of
        (s1, x1, y1, p1) \<Rightarrow> st\<lparr> stack := s1, penX := x1, penY := y1, path := p1 \<rparr>)"

text \<open>vhcurveto (30) and hvcurveto (31): groups of four operands, a fifth one on the
  last group; fewer than four stay on the stack.\<close>

fun hvcurvetoLoop ::
  "bool \<Rightarrow> jsval list \<Rightarrow> jsval \<Rightarrow> jsval \<Rightarrow> pathcmd list
     \<Rightarrow> jsval list \<times> jsval \<times> jsval \<times> pathcmd list" where
  "hvcurvetoLoop alternate (a # b # c # d # r) x y p =
     (if alternate then
        (let c1x = jadd x a; c1y = y; c2x = jadd c1x b; c2y = jadd c1y c;
             y1 = jadd c2y d;
             x1 = (if length r = 1 then jadd c2x (shiftVal r) else c2x)
         in hvcurvetoLoop (\<not> alternate) (if length r = 1 then tl r else r) x1 y1
              (p @ [CurveTo c1x c1y c2x c2y x1 y1]))
      else
        (let c1x = x; c1y = jadd y a; c2x = jadd c1x b; c2y = jadd c1y c;
             x1 = jadd c2x d;
             y1 = (if length r = 1 then jadd c2y (shiftVal r) else c2y)
         in hvcurvetoLoop (\<not> alternate) (if length r = 1 then tl r else r) x1 y1
              (p @ [CurveTo c1x c1y c2x c2y x1 y1])))"
| "hvcurvetoLoop alternate s x y p = (s, x, y, p)"

definition opHvcurveto :: "bool \<Rightarrow> pen \<Rightarrow> pen" where
  "opHvcurveto isX st =
     (case hvcurvetoLoop isX (stack st) (penX st) (penY st) (path st) of
        (s1, x1, y1, p1) \<Rightarrow> st\<lparr> stack := s1, penX := x1, penY := y1, path := p1 \<rparr>)"

text \<open>endchar (14).\<close>

definition opEndchar :: "pen \<Rightarrow> pen" where
  "opEndchar st =
     closeIfOpen (if length (stack st) > 0 \<and> \<not> haveWidth st
                  then (shiftWidth st)\<lparr> haveWidth := True \<rparr> else st)"

text \<open>The \<open>switch (op)\<close> of \<open>drawCFF\<close>, but for callsubr, callgsubr (10, 29) and return
  (11), which the loop below handles.\<close>

definition execOp :: "nat \<Rightarrow> pen \<Rightarrow> pen" where
  "execOp op st =
     (if op = 1 \<or> op = 18 \<or> op = 3 \<or> op = 23 then opStem st
      else if op = 4 then opVmoveto st
      else if op = 5 then opRlineto st
      else if op = 6 \<or> op = 7 then opHvlineto (op = 6) st
      else if op = 8 then opRrcurveto st
      else if op = 14 then opEndchar st
      else if op = 21 then opRmoveto st
      else if op = 22 then opHmoveto st
      else if op = 30 \<or> op = 31 then opHvcurveto (op = 31) st
      else st\<lparr> stack := [] \<rparr>)"

text \<open>
  The subroutine bias as \<open>_parseCFFTable\<close> computes it from the global subroutine INDEX
  and \<open>parsePrivateDict\<close> from the local one (the same expression in both).
\<close>

definition subrBias :: "nat \<Rightarrow> nat" where
  "subrBias nSubrs = (if nSubrs < 1240 then 107 else if nSubrs < 33900 then 1131 else 32768)"

text \<open>
  The two places that store a subroutine INDEX with its bias: \<open>_parseCFFTable\<close> after
  reading the global INDEX, and the end of \<open>parsePrivateDict\<close>, where \<open>subrs\<close> is the
  local INDEX read at \<open>localSubrOffset\<close>, or \<open>None\<close> when the Private DICT has no Subrs
  operator (then the bias field is 0).
\<close>

definition storeGlobalSubrs :: "byte list list \<Rightarrow> parser \<Rightarrow> parser" where
  "storeGlobalSubrs subrs f =
     f\<lparr> cffGlobalSubrs := subrs, cffGlobalBias := subrBias (length subrs) \<rparr>"

definition storeLocalSubrs :: "byte list list option \<Rightarrow> parser \<Rightarrow> parser" where
  "storeLocalSubrs subrs f =
     (case subrs of
        Some ls \<Rightarrow> f\<lparr> cffLocalSubrs := ls, cffLocalBias := subrBias (length ls) \<rparr>
      | None \<Rightarrow> f\<lparr> cffLocalSubrs := [], cffLocalBias := 0 \<rparr>)"

text \<open>
  The table and the bias a call operator uses: \<open>this.cffLocalBias || 107\<close> for callsubr
  (10), \<open>this.cffGlobalBias || 107\<close> for callgsubr (29).
\<close>

definition callSubrs :: "parser \<Rightarrow> nat \<Rightarrow> byte list list" where
  "callSubrs f op = (if op = 10 then cffLocalSubrs f else cffGlobalSubrs f)"

definition callBias :: "parser \<Rightarrow> nat \<Rightarrow> nat" where
  "callBias f op =
     (if op = 10 then (if cffLocalBias f = 0 then 107 else cffLocalBias f)
      else (if cffGlobalBias f = 0 then 107 else cffGlobalBias f))"

text \<open>
  \<open>adjustedIndex = Math.round(stack.pop()) + bias\<close>, and the index of the subroutine
  called: the call is made when \<open>adjustedIndex >= 0 && adjustedIndex < subrs.length\<close>.
\<close>

definition adjustedIndex :: "parser \<Rightarrow> nat \<Rightarrow> jsval \<Rightarrow> jsval" where
  "adjustedIndex f op popped = jadd (jround popped) (Num (real (callBias f op)))"

definition calledIndex :: "parser \<Rightarrow> nat \<Rightarrow> jsval \<Rightarrow> nat option" where
  "calledIndex f op popped =
     (case adjustedIndex f op popped of
        Num r \<Rightarrow> if 0 \<le> r \<and> r < real (length (callSubrs f op)) then Some (nat \<lfloor>r\<rfloor>) else None
      | NaN \<Rightarrow> None
      | Undefined \<Rightarrow> None)"

text \<open>
  The main loop of \<open>drawCFF(charString, state)\<close> from index \<open>i\<close>. A subroutine call
  is a call of \<open>drawCFF\<close> itself, on the subroutine and the same state; the loop goes on
  after the operator when the call returns. Nothing in the function counts or bounds
  the nesting of these calls. What bounds it is the call stack of the engine that runs
  the code: \<open>room\<close> is the number of further activations of \<open>drawCFF\<close> the call stack
  has room for, and a call when there is none throws the engine's \<open>RangeError\<close>
  (maximum call stack size exceeded), the error \<open>CallStackExceeded\<close> here, which no
  statement of \<open>drawCFF\<close> catches. (The
  short calls made inside an activation, \<open>readCharStringOperand\<close>, \<open>Math.round\<close> and
  the methods of the stack, are taken to fit where the activation fits.)
\<close>

function drawLoop :: "nat \<Rightarrow> parser \<Rightarrow> byte list \<Rightarrow> nat \<Rightarrow> pen \<Rightarrow> error + pen" where
  "drawLoop room f charString i st =
     (if i < length charString then
        (if uint (charString ! i) \<ge> 32 then
           drawLoop room f charString (snd (readCharStringOperand charString i))
             (st\<lparr> stack := stack st @ [fst (readCharStringOperand charString i)] \<rparr>)
         else if uint (charString ! i) = 12 then
           drawLoop room f charString (i + 2)
             (execOp (nat (jsOr (jsShl 12 8) (int32At charString (i + 1)))) st)
         else if uint (charString ! i) = 10 \<or> uint (charString ! i) = 29 then
           (if length (stack st) > 0 then
              (case calledIndex f (unat (charString ! i)) (popVal (stack st)) of
                 Some k \<Rightarrow>
                   (case room of
                      0 \<Rightarrow> Inl CallStackExceeded
                    | Suc rest \<Rightarrow>
                        (case drawLoop rest f (callSubrs f (unat (charString ! i)) ! k) 0
                                (st\<lparr> stack := butlast (stack st) \<rparr>) of
                           Inl e \<Rightarrow> Inl e
                         | Inr st1 \<Rightarrow> drawLoop room f charString (i + 1) st1))
               | None \<Rightarrow> drawLoop room f charString (i + 1) (st\<lparr> stack := butlast (stack st) \<rparr>))
            else drawLoop room f charString (i + 1) st)
         else if uint (charString ! i) = 11 then Inr st
         else drawLoop room f charString (i + 1) (execOp (unat (charString ! i)) st))
      else Inr st)"
  by pat_completeness auto
termination
proof (relation "measures [\<lambda>(room, f, charString, i, st). room,
                           \<lambda>(room, f, charString, i, st). length charString - i]", goal_cases)
  case 1
  show ?case by simp
next
  case (2 room f charString i st)
  then show ?case
    by (auto simp: readCharStringOperand_def byteAt_def)
qed auto

declare drawLoop.simps [simp del]

text \<open>\<open>drawCFF(charString, state)\<close>, called with room for \<open>room\<close> activations: the call
  itself takes one.\<close>

definition drawCFF :: "nat \<Rightarrow> parser \<Rightarrow> byte list \<Rightarrow> pen \<Rightarrow> error + pen" where
  "drawCFF room f charString st =
     (case room of 0 \<Rightarrow> Inl CallStackExceeded | Suc rest \<Rightarrow> drawLoop rest f charString 0 st)"

text \<open>\<open>cffPathToGlyph(pathCommands)\<close>: \<open>cur\<close> is \<open>currentContour\<close>, \<open>cs\<close> the contours
  pushed so far.\<close>

fun cffContours :: "pathcmd list \<Rightarrow> point list \<Rightarrow> point list list \<Rightarrow> point list list" where
  "cffContours [] cur cs = (if cur \<noteq> [] then cs @ [cur] else cs)"
| "cffContours (MoveTo x y # r) cur cs =
     cffContours r [\<lparr> px = x, py = y, onCurve = True, cubic = None \<rparr>]
       (if cur \<noteq> [] then cs @ [cur] else cs)"
| "cffContours (LineTo x y # r) cur cs =
     cffContours r (cur @ [\<lparr> px = x, py = y, onCurve = True, cubic = None \<rparr>]) cs"
| "cffContours (CurveTo x1 y1 x2 y2 x3 y3 # r) cur cs =
     cffContours r
       (cur @ [\<lparr> px = x3, py = y3, onCurve = True, cubic = Some (x1, y1, x2, y2) \<rparr>]) cs"
| "cffContours (ClosePath # r) cur cs =
     (if cur \<noteq> [] then cffContours r [] (cs @ [cur]) else cffContours r cur cs)"

definition cffPathToGlyph :: "pathcmd list \<Rightarrow> glyph option" where
  "cffPathToGlyph pathCommands =
     (if pathCommands = [] then None else Some \<lparr> contours = cffContours pathCommands [] [] \<rparr>)"

text \<open>
  \<open>parseCFFGlyph(glyphId)\<close>: \<open>null\<close> is \<open>None\<close>. The interpretation runs inside
  \<open>try\<close>; whatever it throws is caught, a warning is logged and the result is \<open>null\<close>.
  The one error the interpretation can end with is the engine's \<open>RangeError\<close> (no other
  statement of \<open>drawCFF\<close> or \<open>cffPathToGlyph\<close> throws).
\<close>

definition parseCFFGlyph :: "nat \<Rightarrow> parser \<Rightarrow> nat \<Rightarrow> glyph option" where
  "parseCFFGlyph room f glyphId =
     (if glyphId \<ge> length (cffCharStrings f) then None
      else if cffCharStrings f ! glyphId = [] then None
      else (case drawCFF room f (cffCharStrings f ! glyphId) initialPen of
              Inl e \<Rightarrow> None
            | Inr st \<Rightarrow> cffPathToGlyph (path st)))"

section \<open>The TrueType glyph decoder\<close>

text \<open>\<open>flag & mask\<close> as a condition.\<close>

definition hasBit :: "nat \<Rightarrow> nat \<Rightarrow> bool" where
  "hasBit flag m = (flag AND m \<noteq> 0)"

text \<open>
  The flag loop of \<open>parseSimpleGlyph\<close>: \<open>while (i < numPoints)\<close>, a flag with bit 3
  being followed by a repeat count.
\<close>

function readFlags :: "byte list \<Rightarrow> nat \<Rightarrow> nat \<Rightarrow> nat list \<Rightarrow> nat \<Rightarrow> nat list reading" where
  "readFlags buf numPoints i flags off =
     (if i < numPoints then
        (case readUint8 buf off of
           Inl e \<Rightarrow> Inl e
         | Inr (flag, off1) \<Rightarrow>
             if hasBit flag 8 then
               (case readUint8 buf off1 of
                  Inl e \<Rightarrow> Inl e
                | Inr (repeatCount, off2) \<Rightarrow>
                    readFlags buf numPoints (i + 1 + repeatCount)
                      (flags @ flag # replicate repeatCount flag) off2)
             else readFlags buf numPoints (i + 1) (flags @ [flag]) off1)
      else Inr (flags, off))"
  by pat_completeness auto
termination
  by (relation "measure (\<lambda>(buf, numPoints, i, flags, off). numPoints - i)") auto

declare readFlags.simps [simp del]

text \<open>
  The two coordinate loops \<open>for (i = 0; i < numPoints; i++)\<close>, over the flags
  \<open>flags[0..numPoints-1]\<close>: \<open>shortMask\<close> and \<open>sameMask\<close> are 0x02 and 0x10 for x, 0x04 and
  0x20 for y; \<open>v\<close> is the running coordinate.
\<close>

fun readCoords :: "byte list \<Rightarrow> nat \<Rightarrow> nat \<Rightarrow> nat list \<Rightarrow> int \<Rightarrow> nat \<Rightarrow> int list reading" where
  "readCoords buf shortMask sameMask [] v off = Inr ([], off)"
| "readCoords buf shortMask sameMask (flag # fs) v off =
     rbind
       (if hasBit flag shortMask then
          rbind (readUint8 buf off)
            (\<lambda>d off1. Inr (v + (if hasBit flag sameMask then int d else - int d), off1))
        else if \<not> hasBit flag sameMask then
          rbind (readInt16 buf off) (\<lambda>d off1. Inr (v + d, off1))
        else Inr (v, off))
       (\<lambda>v1 off1. rbind (readCoords buf shortMask sameMask fs v1 off1)
          (\<lambda>vs off2. Inr (v1 # vs, off2)))"

text \<open>
  A point of the contour-building loop: \<open>xCoords[pointIndex]\<close> and
  \<open>yCoords[pointIndex]\<close> are \<open>undefined\<close> past the end of the arrays, and
  \<open>!!(undefined & 0x01)\<close> is false.
\<close>

definition coordAt :: "int list \<Rightarrow> nat \<Rightarrow> jsval" where
  "coordAt vs k = (if k < length vs then Num (real_of_int (vs ! k)) else Undefined)"

definition pointAt :: "int list \<Rightarrow> int list \<Rightarrow> nat list \<Rightarrow> nat \<Rightarrow> point" where
  "pointAt xCoords yCoords flags k =
     \<lparr> px = coordAt xCoords k, py = coordAt yCoords k,
       onCurve = (k < length flags \<and> hasBit (flags ! k) 1), cubic = None \<rparr>"

text \<open>The loop over the contours; \<open>pointIndex\<close> runs on from one contour to the next
  (\<open>while (pointIndex <= endPt)\<close>).\<close>

fun buildContours ::
  "nat list \<Rightarrow> nat \<Rightarrow> int list \<Rightarrow> int list \<Rightarrow> nat list \<Rightarrow> point list list" where
  "buildContours [] pointIndex xCoords yCoords flags = []"
| "buildContours (endPt # rest) pointIndex xCoords yCoords flags =
     map (pointAt xCoords yCoords flags) [pointIndex ..< Suc endPt]
       # buildContours rest (max pointIndex (Suc endPt)) xCoords yCoords flags"

text \<open>\<open>parseSimpleGlyph(numberOfContours, ...)\<close>, with the offset it starts at.\<close>

definition parseSimpleGlyph :: "byte list \<Rightarrow> nat \<Rightarrow> nat \<Rightarrow> glyph reading" where
  "parseSimpleGlyph buf numberOfContours off =
     rbind (readArray (readUint16 buf) numberOfContours off) (\<lambda>contourEndPts off1.
     rbind (readUint16 buf off1) (\<lambda>instructionLength off2.
       if (if contourEndPts \<noteq> [] then last contourEndPts + 1 else 0) = 0
       then Inr (\<lparr> contours = [] \<rparr>, off2 + instructionLength)
       else
         rbind (readFlags buf (last contourEndPts + 1) 0 [] (off2 + instructionLength))
           (\<lambda>flags off3.
         rbind (readCoords buf 2 16 (take (last contourEndPts + 1) flags) 0 off3)
           (\<lambda>xCoords off4.
         rbind (readCoords buf 4 32 (take (last contourEndPts + 1) flags) 0 off4)
           (\<lambda>yCoords off5.
            Inr (\<lparr> contours = buildContours contourEndPts 0 xCoords yCoords flags \<rparr>,
                 off5))))))"

text \<open>
  One component record of a composite glyph: the flags, the glyph index, the offset
  \<open>(dx, dy)\<close> and the matrix, as the body of the \<open>do\<close> loop of \<open>parseCompositeGlyph\<close>
  reads them before it decodes the component.
\<close>

record component =
  cFlags :: nat
  cGlyphIndex :: nat
  cDx :: int
  cDy :: int
  m00 :: real
  m01 :: real
  m10 :: real
  m11 :: real

definition readComponent :: "byte list \<Rightarrow> nat \<Rightarrow> component reading" where
  "readComponent buf off =
     rbind (readUint16 buf off) (\<lambda>flags off1.
     rbind (readUint16 buf off1) (\<lambda>glyphIndex off2.
     rbind (if hasBit flags 1
            then rbind (readInt16 buf off2) (\<lambda>a off3.
                 rbind (readInt16 buf off3) (\<lambda>b off4. Inr ((a, b), off4)))
            else rbind (readInt8 buf off2) (\<lambda>a off3.
                 rbind (readInt8 buf off3) (\<lambda>b off4. Inr ((a, b), off4))))
       (\<lambda>args off5.
     rbind (if hasBit flags 8
            then rbind (readF2Dot14 buf off5) (\<lambda>s off6. Inr ((s, 0, 0, s), off6))
            else if hasBit flags 64
            then rbind (readF2Dot14 buf off5) (\<lambda>a off6.
                 rbind (readF2Dot14 buf off6) (\<lambda>d off7. Inr ((a, 0, 0, d), off7)))
            else if hasBit flags 128
            then rbind (readF2Dot14 buf off5) (\<lambda>a off6.
                 rbind (readF2Dot14 buf off6) (\<lambda>b off7.
                 rbind (readF2Dot14 buf off7) (\<lambda>c off8.
                 rbind (readF2Dot14 buf off8) (\<lambda>d off9. Inr ((a, b, c, d), off9)))))
            else Inr ((1, 0, 0, 1), off5))
       (\<lambda>m off10.
          Inr (\<lparr> cFlags = flags, cGlyphIndex = glyphIndex,
                 cDx = (if hasBit flags 2 then fst args else 0),
                 cDy = (if hasBit flags 2 then snd args else 0),
                 m00 = fst m, m01 = fst (snd m), m10 = fst (snd (snd m)),
                 m11 = snd (snd (snd m)) \<rparr>, off10)))))"

text \<open>The transformed copy of a point: \<open>{...pt, x: pt.x * m00 + pt.y * m01 + dx,
  y: pt.x * m10 + pt.y * m11 + dy}\<close>.\<close>

definition transformPoint :: "component \<Rightarrow> point \<Rightarrow> point" where
  "transformPoint c pt =
     pt\<lparr> px := jadd (jadd (jmul (px pt) (Num (m00 c))) (jmul (py pt) (Num (m01 c))))
                 (Num (real_of_int (cDx c))),
         py := jadd (jadd (jmul (px pt) (Num (m10 c))) (jmul (py pt) (Num (m11 c))))
                 (Num (real_of_int (cDy c))) \<rparr>"

text \<open>The contours one component appends to \<open>allContours\<close>, given the glyph decoded for
  it (\<open>None\<close> is \<open>null\<close>).\<close>

definition componentContours :: "component \<Rightarrow> glyph option \<Rightarrow> point list list" where
  "componentContours c baseGlyph =
     (case baseGlyph of
        None \<Rightarrow> []
      | Some g \<Rightarrow> map (map (transformPoint c)) (contours g))"

text \<open>
  The head of \<open>parseTrueTypeGlyph(glyphId)\<close>, up to the choice between
  \<open>parseSimpleGlyph\<close> and \<open>parseCompositeGlyph\<close>: no glyph (\<open>null\<close>), an empty glyph, or
  the glyph header read (the bounding box is read and skipped here).
\<close>

datatype glyphkind = NoGlyph | EmptyGlyph | SimpleGlyph nat | CompositeGlyph

definition glyphHeader :: "parser \<Rightarrow> nat \<Rightarrow> nat \<Rightarrow> glyphkind reading" where
  "glyphHeader f glyphId off =
     (if glyphId + 1 \<ge> length (glyphOffsets f) then Inr (NoGlyph, off)
      else if glyphOffsets f ! glyphId = glyphOffsets f ! (glyphId + 1) then Inr (EmptyGlyph, off)
      else
        (case tables f ''glyf'' of
           None \<Rightarrow> Inl TypeError
         | Some (glyfOffset, glyfLength) \<Rightarrow>
             (case seek (buffer f) (glyfOffset + glyphOffsets f ! glyphId) of
                Inl e \<Rightarrow> Inl e
              | Inr off0 \<Rightarrow>
                  rbind (readInt16 (buffer f) off0) (\<lambda>numberOfContours off1.
                  rbind (readInt16 (buffer f) off1) (\<lambda>xMin off2.
                  rbind (readInt16 (buffer f) off2) (\<lambda>yMin off3.
                  rbind (readInt16 (buffer f) off3) (\<lambda>xMax off4.
                  rbind (readInt16 (buffer f) off4) (\<lambda>yMax off5.
                    Inr (if numberOfContours \<ge> 0 then SimpleGlyph (nat numberOfContours)
                         else CompositeGlyph, off5)))))))))"

text \<open>The end of \<open>parseCompositeGlyph\<close>, after the loop: the instructions are skipped
  when the last component's flags have bit 0x0100.\<close>

definition finishComposite ::
  "byte list \<Rightarrow> error + (point list list \<times> nat) \<times> nat \<Rightarrow> (glyph option) reading" where
  "finishComposite buf r =
     (case r of
        Inl e \<Rightarrow> Inl e
      | Inr ((allContours, flags), off) \<Rightarrow>
          if hasBit flags 256
          then rbind (readUint16 buf off)
                 (\<lambda>instrLength off1. Inr (Some \<lparr> contours = allContours \<rparr>, off1 + instrLength))
          else Inr (Some \<lparr> contours = allContours \<rparr>, off))"

definition simpleResult :: "glyph reading \<Rightarrow> (glyph option) reading" where
  "simpleResult r = (case r of Inl e \<Rightarrow> Inl e | Inr (g, off) \<Rightarrow> Inr (Some g, off))"

text \<open>
  The \<open>do ... while (flags & 0x0020)\<close> loop of \<open>parseCompositeGlyph\<close>, from the offset
  \<open>off\<close> with the contours collected so far; it returns them with the flags of the last
  component. Each turn decodes its component by \<open>parseTrueTypeGlyph\<close>, whose body stands
  here in full (the two functions call each other); that call moves the cursor, and a
  component may be the composite glyph itself, so neither the nesting nor the number of
  turns is bounded: \<open>None\<close> is a decoding that does not return.
\<close>

partial_function (option) parseComponents ::
  "parser \<Rightarrow> nat \<Rightarrow> point list list \<Rightarrow> (error + (point list list \<times> nat) \<times> nat) option" where
  "parseComponents f off allContours =
     (case readComponent (buffer f) off of
        Inl e \<Rightarrow> Some (Inl e)
      | Inr (c, off1) \<Rightarrow>
          Option.bind
            (case glyphHeader f (cGlyphIndex c) off1 of
               Inl e \<Rightarrow> Some (Inl e)
             | Inr (NoGlyph, off2) \<Rightarrow> Some (Inr (None, off2))
             | Inr (EmptyGlyph, off2) \<Rightarrow> Some (Inr (Some \<lparr> contours = [] \<rparr>, off2))
             | Inr (SimpleGlyph n, off2) \<Rightarrow> Some (simpleResult (parseSimpleGlyph (buffer f) n off2))
             | Inr (CompositeGlyph, off2) \<Rightarrow>
                 Option.bind (parseComponents f off2 [])
                   (\<lambda>r. Some (finishComposite (buffer f) r)))
            (\<lambda>r. case r of
                    Inl e \<Rightarrow> Some (Inl e)
                  | Inr (baseGlyph, off3) \<Rightarrow>
                      if hasBit (cFlags c) 32
                      then parseComponents f off3 (allContours @ componentContours c baseGlyph)
                      else Some (Inr ((allContours @ componentContours c baseGlyph, cFlags c),
                                      off3))))"

definition parseCompositeGlyph :: "parser \<Rightarrow> nat \<Rightarrow> ((glyph option) reading) option" where
  "parseCompositeGlyph f off =
     Option.bind (parseComponents f off []) (\<lambda>r. Some (finishComposite (buffer f) r))"

definition parseTrueTypeGlyph :: "parser \<Rightarrow> nat \<Rightarrow> nat \<Rightarrow> ((glyph option) reading) option" where
  "parseTrueTypeGlyph f glyphId off =
     (case glyphHeader f glyphId off of
        Inl e \<Rightarrow> Some (Inl e)
      | Inr (NoGlyph, off2) \<Rightarrow> Some (Inr (None, off2))
      | Inr (EmptyGlyph, off2) \<Rightarrow> Some (Inr (Some \<lparr> contours = [] \<rparr>, off2))
      | Inr (SimpleGlyph n, off2) \<Rightarrow> Some (simpleResult (parseSimpleGlyph (buffer f) n off2))
      | Inr (CompositeGlyph, off2) \<Rightarrow> parseCompositeGlyph f off2)"

section \<open>Variation of a glyph, and the glyph cache\<close>

text \<open>\<open>transformGlyph(glyph, widthFactor, weightFactor)\<close>, the contours of its result.\<close>

definition scalePoint :: "jsval \<Rightarrow> jsval \<Rightarrow> point \<Rightarrow> point" where
  "scalePoint widthFactor weightFactor pt =
     pt\<lparr> px := jmul (px pt) widthFactor, py := jmul (py pt) weightFactor,
         cubic := (case cubic pt of
                     None \<Rightarrow> None
                   | Some (x1, y1, x2, y2) \<Rightarrow>
                       Some (jmul x1 widthFactor, jmul y1 weightFactor,
                             jmul x2 widthFactor, jmul y2 weightFactor)) \<rparr>"

definition transformGlyph :: "glyph \<Rightarrow> jsval \<Rightarrow> jsval \<Rightarrow> glyph" where
  "transformGlyph g widthFactor weightFactor =
     g\<lparr> contours := map (map (scalePoint widthFactor weightFactor)) (contours g) \<rparr>"

definition applyVariationToGlyph :: "parser \<Rightarrow> glyph option \<Rightarrow> glyph option" where
  "applyVariationToGlyph f baseGlyph =
     (case baseGlyph of
        None \<Rightarrow> None
      | Some g \<Rightarrow>
          if \<not> isVariableFont f then Some g
          else
            let wght = jor (axisValue f ''wght'') (Num 150);
                wdth = jor (axisValue f ''wdth'') (Num 100);
                widthFactor = jdiv wdth 100;
                weightFactor = jadd (Num 1) (jdiv (jsub wght (Num 150)) 1500)
            in Some (transformGlyph g widthFactor weightFactor))"

text \<open>
  \<open>parseGlyph(glyphId)\<close>: the glyph returned (\<open>None\<close> is \<open>null\<close>) and the parser after the
  call, or the error a TrueType decoding throws. A glyph in the cache is returned as it
  is; a decoded one is stored when it is not \<open>null\<close>. \<open>room\<close> is the room of the call
  stack that the interpretation of a CharString is given.
\<close>

definition parseGlyph ::
  "nat \<Rightarrow> parser \<Rightarrow> nat \<Rightarrow> (error + glyph option \<times> parser) option" where
  "parseGlyph room f glyphId =
     (case glyphCache f glyphId of
        Some cached \<Rightarrow> Some (Inr (Some cached, f))
      | None \<Rightarrow>
          Option.bind
            (if fontType f = Some CFF
             then Some (Inr (parseCFFGlyph room f glyphId, offset f))
             else parseTrueTypeGlyph f glyphId (offset f))
            (\<lambda>r. case r of
                    Inl e \<Rightarrow> Some (Inl e)
                  | Inr (baseGlyph, off) \<Rightarrow>
                      (case applyVariationToGlyph f baseGlyph of
                         None \<Rightarrow> Some (Inr (None, f\<lparr> offset := off \<rparr>))
                       | Some g \<Rightarrow>
                           Some (Inr (Some g,
                                      f\<lparr> offset := off,
                                         glyphCache := (glyphCache f)(glyphId \<mapsto> g) \<rparr>)))))"

section \<open>Path commands\<close>

text \<open>
  The path string is a sequence of commands separated by spaces; each command is its
  letter followed by its numbers (\<open>M x y\<close>, \<open>L x y\<close>, \<open>Q cx cy x y\<close>,
  \<open>C c1x c1y c2x c2y x y\<close>, \<open>Z\<close>). It is modelled as the list of its commands, in the
  order the source appends them to the string.
\<close>

datatype svgcmd =
    PathM jsval jsval
  | PathL jsval jsval
  | PathQ jsval jsval jsval jsval
  | PathC jsval jsval jsval jsval jsval jsval
  | PathZ

text \<open>\<open>v * scale + offsetX\<close>, and \<open>flipY ? -v * scale + offsetY : v * scale + offsetY\<close>.\<close>

definition coordX :: "jsval \<Rightarrow> jsval \<Rightarrow> jsval \<Rightarrow> jsval" where
  "coordX scale offsetX v = jadd (jmul v scale) offsetX"

definition coordY :: "jsval \<Rightarrow> bool \<Rightarrow> jsval \<Rightarrow> jsval \<Rightarrow> jsval" where
  "coordY scale flipY offsetY v =
     (if flipY then jadd (jmul (jneg v) scale) offsetY else jadd (jmul v scale) offsetY)"

text \<open>The point \<open>{x: (a.x + b.x) / 2, y: (a.y + b.y) / 2, onCurve: true}\<close>.\<close>

definition midPoint :: "point \<Rightarrow> point \<Rightarrow> point" where
  "midPoint a b =
     \<lparr> px = jdiv (jadd (px a) (px b)) 2, py = jdiv (jadd (py a) (py b)) 2,
       onCurve = True, cubic = None \<rparr>"

text \<open>The \<open>while (i < pts.length)\<close> loop of \<open>contourToSVGPath\<close>: the commands appended
  from index \<open>i\<close> on.\<close>

function emitSegments ::
  "jsval \<Rightarrow> bool \<Rightarrow> jsval \<Rightarrow> jsval \<Rightarrow> point list \<Rightarrow> nat \<Rightarrow> svgcmd list" where
  "emitSegments scale flipY offsetX offsetY pts i =
     (if i < length pts then
        (if onCurve (pts ! (i mod length pts)) then
           (case cubic (pts ! (i mod length pts)) of
              Some (x1, y1, x2, y2) \<Rightarrow>
                PathC (coordX scale offsetX x1) (coordY scale flipY offsetY y1)
                      (coordX scale offsetX x2) (coordY scale flipY offsetY y2)
                      (coordX scale offsetX (px (pts ! (i mod length pts))))
                      (coordY scale flipY offsetY (py (pts ! (i mod length pts))))
            | None \<Rightarrow>
                PathL (coordX scale offsetX (px (pts ! (i mod length pts))))
                      (coordY scale flipY offsetY (py (pts ! (i mod length pts)))))
           # emitSegments scale flipY offsetX offsetY pts (i + 1)
         else if onCurve (pts ! ((i + 1) mod length pts)) then
           PathQ (coordX scale offsetX (px (pts ! (i mod length pts))))
                 (coordY scale flipY offsetY (py (pts ! (i mod length pts))))
                 (coordX scale offsetX (px (pts ! ((i + 1) mod length pts))))
                 (coordY scale flipY offsetY (py (pts ! ((i + 1) mod length pts))))
           # emitSegments scale flipY offsetX offsetY pts (i + 2)
         else
           PathQ (coordX scale offsetX (px (pts ! (i mod length pts))))
                 (coordY scale flipY offsetY (py (pts ! (i mod length pts))))
                 (coordX scale offsetX
                    (px (midPoint (pts ! (i mod length pts)) (pts ! ((i + 1) mod length pts)))))
                 (coordY scale flipY offsetY
                    (py (midPoint (pts ! (i mod length pts)) (pts ! ((i + 1) mod length pts)))))
           # emitSegments scale flipY offsetX offsetY pts (i + 1))
      else [])"
  by pat_completeness auto
termination
  by (relation "measure (\<lambda>(scale, flipY, offsetX, offsetY, pts, i). length pts - i)") auto

declare emitSegments.simps [simp del]

text \<open>The points \<open>pts\<close> the loop walks: the contour, with an on-curve point put in
  front when its first point is off-curve.\<close>

definition withFirstOn :: "point list \<Rightarrow> point list" where
  "withFirstOn points =
     (if \<not> onCurve (hd points)
      then (if onCurve (last points) then last points else midPoint (last points) (hd points))
             # points
      else points)"

definition contourToSVGPath ::
  "point list \<Rightarrow> jsval \<Rightarrow> bool \<Rightarrow> jsval \<Rightarrow> jsval \<Rightarrow> svgcmd list" where
  "contourToSVGPath points scale flipY offsetX offsetY =
     (if points = [] then []
      else
        PathM (coordX scale offsetX (px (hd (withFirstOn points))))
              (coordY scale flipY offsetY (py (hd (withFirstOn points))))
        # emitSegments scale flipY offsetX offsetY (withFirstOn points) 1 @ [PathZ])"

text \<open>The options object of \<open>glyphToSVGPath\<close>; a missing property is \<open>Undefined\<close>,
  respectively \<open>None\<close>.\<close>

record pathOptions =
  optScale :: jsval
  optFlipY :: "bool option"
  optOffsetX :: jsval
  optOffsetY :: jsval

text \<open>The part of \<open>glyphToSVGPath\<close> after \<open>parseGlyph\<close>: the path of the glyph it got
  (\<open>join(" ")\<close> puts the contours' strings one after the other).\<close>

definition glyphPath :: "glyph option \<Rightarrow> pathOptions \<Rightarrow> svgcmd list" where
  "glyphPath g options =
     (case g of
        None \<Rightarrow> []
      | Some gl \<Rightarrow>
          concat (map (\<lambda>contour.
                    contourToSVGPath contour (jor (optScale options) (Num 1))
                      (optFlipY options \<noteq> Some False)
                      (jor (optOffsetX options) (Num 0)) (jor (optOffsetY options) (Num 0)))
                  (contours gl)))"

definition glyphToSVGPath ::
  "nat \<Rightarrow> parser \<Rightarrow> nat \<Rightarrow> pathOptions \<Rightarrow> (error + svgcmd list \<times> parser) option" where
  "glyphToSVGPath room f character options =
     Option.bind (parseGlyph room f (getGlyphId f character))
       (\<lambda>r. case r of
               Inl e \<Rightarrow> Some (Inl e)
             | Inr (g, f1) \<Rightarrow> Some (Inr (glyphPath g options, f1)))"

section \<open>Loading the character map\<close>

text \<open>
  \<open>_parseCmapSubtable\<close> as the method of the parser it is: the entries go into
  \<open>this.charToGlyph\<close>. The position it leaves the cursor at is not kept; every parsing
  step after it starts with a \<open>seek\<close>.
\<close>

definition loadCmapSubtable :: "parser \<Rightarrow> nat \<Rightarrow> error + parser" where
  "loadCmapSubtable f subtableOffset =
     (case parseCmapSubtable (buffer f) subtableOffset (charToGlyph f) of
        Inl e \<Rightarrow> Inl e
      | Inr m \<Rightarrow> Inr (f\<lparr> charToGlyph := m \<rparr>))"

section \<open>Predicates of the properties\<close>

text \<open>Counting the commands of a path.\<close>

fun isMove :: "svgcmd \<Rightarrow> bool" where
  "isMove (PathM x y) = True"
| "isMove c = False"

fun isClose :: "svgcmd \<Rightarrow> bool" where
  "isClose PathZ = True"
| "isClose c = False"

text \<open>A point both of whose coordinates are numbers, and contours of such points.\<close>

fun isNum :: "jsval \<Rightarrow> bool" where
  "isNum (Num a) = True"
| "isNum v = False"

definition numericPoint :: "point \<Rightarrow> bool" where
  "numericPoint pt = (isNum (px pt) \<and> isNum (py pt))"

definition numericContours :: "point list list \<Rightarrow> bool" where
  "numericContours cs = list_all (list_all numericPoint) cs"

text \<open>\<open>baseGlyph?.contours\<close>, with no contours for \<open>null\<close>.\<close>

definition contoursOf :: "glyph option \<Rightarrow> point list list" where
  "contoursOf g = (case g of None \<Rightarrow> [] | Some gl \<Rightarrow> contours gl)"

text \<open>The point a transformation makes of a point that is not numeric.\<close>

definition nanPoint :: "point \<Rightarrow> point" where
  "nanPoint pt = (if numericPoint pt then pt else pt\<lparr> px := NaN, py := NaN \<rparr>)"

section \<open>Fonts used as examples\<close>

text \<open>A variable font with one glyph of advance width 500 and left side bearing 50,
  at weight \<open>w\<close> and width 100.\<close>

definition metricsFont :: "real \<Rightarrow> parser" where
  "metricsFont w =
     newParser\<lparr> horizontalMetrics := [\<lparr> advanceWidth = Num 500, leftSideBearing = Num 50 \<rparr>],
                isVariableFont := True,
                currentAxisValues := [''wght'' \<mapsto> Num w, ''wdth'' \<mapsto> Num 100] \<rparr>"

text \<open>
  A font whose \<open>fvar\<close> table (at offset 0, 36 bytes) declares the axis \<open>wght\<close> from 100
  to 900 with default 400, before \<open>_parseVariableFontTables\<close>.
\<close>

definition fvarBytes :: "byte list" where
  "fvarBytes =
     [0, 1, 0, 0, 0, 16, 0, 2, 0, 1, 0, 20, 0, 0, 0, 0,
      119, 103, 104, 116, 0, 100, 0, 0, 1, 144, 0, 0, 3, 132, 0, 0, 0, 0, 1, 0]"

definition wghtAxis :: axis where
  "wghtAxis = \<lparr> axisTag = ''wght'', axisMin = 100, axisDefault = 400, axisMax = 900,
                 axisFlags = 0, axisNameID = 256 \<rparr>"

definition fvarFont :: parser where
  "fvarFont = newParser\<lparr> buffer := fvarBytes, tables := [''fvar'' \<mapsto> (0, 36)] \<rparr>"

text \<open>
  A TrueType font of one simple glyph with two contours whose end points are both 0:
  the glyph has one point, and its second contour is empty.
\<close>

definition emptyContourFont :: parser where
  "emptyContourFont =
     newParser\<lparr> buffer := [0, 2, 0, 0, 0, 0, 0, 0, 0, 0, 0, 0, 0, 0, 0, 0, 49],
                tables := [''glyf'' \<mapsto> (0, 17)], fontType := Some TrueType,
                glyphOffsets := [0, 17] \<rparr>"

text \<open>
  Two TrueType fonts of two glyphs: glyph 0 is composite, of the one component glyph 1
  with the offset (0, 0) given as arguments and no scale. In \<open>compositeFont\<close> glyph 1 is
  one contour of the one point (5, 7). In \<open>undefinedCoordFont\<close> glyph 1 has two contours
  with the end points 1 and 0: the glyph has one point, and its first contour reaches
  the point index 1.
\<close>

definition compositeFont :: parser where
  "compositeFont =
     newParser\<lparr> buffer := [255, 255, 0, 0, 0, 0, 0, 0, 0, 0, 0, 2, 0, 1, 0, 0,
                            0, 1, 0, 0, 0, 0, 0, 0, 0, 0, 0, 0, 0, 0, 55, 5, 7],
                tables := [''glyf'' \<mapsto> (0, 33)], fontType := Some TrueType,
                glyphOffsets := [0, 16, 33] \<rparr>"

definition undefinedCoordFont :: parser where
  "undefinedCoordFont =
     newParser\<lparr> buffer := [255, 255, 0, 0, 0, 0, 0, 0, 0, 0, 0, 2, 0, 1, 0, 0,
                            0, 2, 0, 0, 0, 0, 0, 0, 0, 0, 0, 1, 0, 0, 0, 0, 49],
                tables := [''glyf'' \<mapsto> (0, 33)], fontType := Some TrueType,
                glyphOffsets := [0, 16, 33] \<rparr>"


text \<open>
  A CFF font with one local subroutine, \<open>rmoveto return\<close> (21, 11), and 1240 global
  subroutines, each \<open>hmoveto return\<close> (22, 11): the bias is 107 for the local table and
  1131 for the global one. Glyph 0 is \<open>5 7 -107 callsubr\<close>, glyph 1 is
  \<open>5 -1131 callgsubr\<close> (the bytes 254, 255 are the operand -1131).
\<close>

definition moveSubrFont :: parser where
  "moveSubrFont =
     storeLocalSubrs (Some [[21, 11]])
       (storeGlobalSubrs (replicate 1240 [22, 11])
          (newParser\<lparr> fontType := Some CFF,
                       cffCharStrings := [[144, 146, 32, 10], [144, 254, 255, 29]] \<rparr>))"

text \<open>The options \<open>{}\<close>.\<close>

definition noOptions :: pathOptions where
  "noOptions = \<lparr> optScale = Undefined, optFlipY = None, optOffsetX = Undefined,
                  optOffsetY = Undefined \<rparr>"

text \<open>The parser \<open>_parseVariableFontTables\<close> makes of \<open>fvarFont\<close>.\<close>

definition parsedFvarFont :: parser where
  "parsedFvarFont =
     fvarFont\<lparr> offset := 36, isVariableFont := True, variationAxes := [wghtAxis],
               currentAxisValues := [''wght'' \<mapsto> Num 400] \<rparr>"

text \<open>The parser \<open>parseGlyph(0)\<close> makes of \<open>emptyContourFont\<close>: the glyph is in the
  cache.\<close>

definition cachedFont :: parser where
  "cachedFont =
     emptyContourFont\<lparr> offset := 17,
       glyphCache :=
         [0 \<mapsto> \<lparr> contours = [[\<lparr> px = Num 0, py = Num 0, onCurve = True, cubic = None \<rparr>],
                              []] \<rparr>] \<rparr>"

text \<open>A glyph of two contours: on, off, on; and two off-curve points.\<close>

definition sampleGlyph :: glyph where
  "sampleGlyph =
     \<lparr> contours =
         [[\<lparr> px = Num 0, py = Num 0, onCurve = True, cubic = None \<rparr>,
           \<lparr> px = Num 10, py = Num 10, onCurve = False, cubic = None \<rparr>,
           \<lparr> px = Num 20, py = Num 0, onCurve = True, cubic = None \<rparr>],
          [\<lparr> px = Num 1, py = Num 1, onCurve = False, cubic = None \<rparr>,
           \<lparr> px = Num 3, py = Num 1, onCurve = False, cubic = None \<rparr>]] \<rparr>"

section \<open>Evaluation of the readers\<close>

lemma readArray_numeral [simp]:
  "readArray rd (numeral k) off = readArray rd (Suc (pred_numeral k)) off"
  by (simp add: numeral_eq_Suc)

lemma format12Groups_numeral [simp]:
  "format12Groups buf (numeral k) off m = format12Groups buf (Suc (pred_numeral k)) off m"
  by (simp add: numeral_eq_Suc)

lemmas reader_defs =
  seek_def readUint8_def readInt8_def readUint16_def readInt16_def readUint32_def
  readInt32_def rbind_def

section \<open>Glyph metrics and the weight axis\<close>

text \<open>Setting \<open>wght\<close> to any value leaves the result of \<open>getGlyphMetrics\<close> as it was; the
  width axis does scale it.\<close>

lemma getGlyphMetrics_wght_update:
  "getGlyphMetrics (f\<lparr> currentAxisValues := (currentAxisValues f)(''wght'' \<mapsto> w) \<rparr>) glyphId
     = getGlyphMetrics f glyphId"
  by (simp add: getGlyphMetrics_def axisValue_def Let_def)

lemma getGlyphMetrics_wdth_example:
  "getGlyphMetrics
     ((metricsFont 150)\<lparr> currentAxisValues := [''wght'' \<mapsto> Num 150, ''wdth'' \<mapsto> Num 200] \<rparr>) 0
     = \<lparr> advanceWidth = Num 1000, leftSideBearing = Num 100 \<rparr>"
  by (simp add: getGlyphMetrics_def metricsFont_def newParser_def axisValue_def)

text \<open>
  C1. The claim is that the metrics of a variable font are blended with the weight
  factor \<open>1 + (wght - 150) / 2000\<close>, so that the advance width depends on \<open>wght\<close>. The
  code computes that factor and does not use it: for the base advance width 500 and
  \<open>wdth = 100\<close>, the advance width returned at \<open>wght = 150\<close> and at \<open>wght = 900\<close> is the
  same 500 (and the bearing the same 50).
\<close>

theorem metrics_ignore_weight:
  "getGlyphMetrics (metricsFont 150) 0 = \<lparr> advanceWidth = Num 500, leftSideBearing = Num 50 \<rparr>
   \<and> getGlyphMetrics (metricsFont 900) 0
       = \<lparr> advanceWidth = Num 500, leftSideBearing = Num 50 \<rparr>"
  by (simp add: getGlyphMetrics_def metricsFont_def newParser_def axisValue_def)

section \<open>Glyph index 0 in the character map\<close>

text \<open>The format-4 decoder keeps the map free of the glyph index 0.\<close>

lemma format4Chars_nonzero:
  assumes "format4Chars buf rs i sc dl ro cs m = Inr m'" and "\<And>c. m c \<noteq> Some 0"
  shows "m' c \<noteq> Some 0"
  using assms
proof (induction cs arbitrary: m)
  case Nil
  then show ?case by simp
next
  case (Cons a cs)
  show ?case
  proof (cases "format4GlyphIndex buf rs i sc dl ro a")
    case (Inl e)
    with Cons.prems show ?thesis by simp
  next
    case (Inr g)
    let ?m1 = "if g \<noteq> 0 then m(a \<mapsto> g) else m"
    from Inr Cons.prems(1) have "format4Chars buf rs i sc dl ro cs ?m1 = Inr m'" by simp
    moreover have "\<And>c. ?m1 c \<noteq> Some 0" using Cons.prems(2) by simp
    ultimately show ?thesis by (rule Cons.IH)
  qed
qed

lemma format4Segments_nonzero:
  assumes "format4Segments buf rs ec sc dl ro is m = Inr m'" and "\<And>c. m c \<noteq> Some 0"
  shows "m' c \<noteq> Some 0"
  using assms
proof (induction "is" arbitrary: m)
  case Nil
  then show ?case by simp
next
  case (Cons i "is")
  from Cons.prems(1) obtain m1 where
    m1: "format4Chars buf rs i (sc ! i) (dl ! i) (ro ! i) [sc ! i ..< Suc (ec ! i)] m = Inr m1"
    and rest: "format4Segments buf rs ec sc dl ro is m1 = Inr m'"
    by (auto split: sum.splits)
  have "\<And>c. m1 c \<noteq> Some 0" using format4Chars_nonzero [OF m1] Cons.prems(2) by blast
  with rest show ?case by (rule Cons.IH)
qed

lemma parseCmapFormat4_nonzero:
  assumes "parseCmapFormat4 buf off m = Inr m'" and "\<And>c. m c \<noteq> Some 0"
  shows "m' c \<noteq> Some 0"
proof -
  from assms(1) obtain rs ec sc dl ro n where
    "format4Segments buf rs ec sc dl ro [0 ..< n] m = Inr m'"
    unfolding parseCmapFormat4_def by (auto split: sum.splits prod.splits)
  then show ?thesis using assms(2) by (rule format4Segments_nonzero)
qed

text \<open>
  C3. The claim is that neither cmap decoder stores the glyph index 0. The format-12
  decoder has no such test: a group \<open>(startCharCode 65, endCharCode 65, startGlyphID 0)\<close>
  stores 0 for the code point 65. The first subtable is laid out as \<open>_parseCmapFormat12\<close>
  reads it (it skips 8 bytes after the format and takes the next four as the number of
  groups), the second is a format-12 subtable as the static parser reads it.
\<close>

theorem format12_stores_glyph_zero:
  "parseCmapSubtable
     [0, 12, 0, 0, 0, 0, 0, 0, 0, 0, 0, 0, 0, 1, 0, 0, 0, 65, 0, 0, 0, 65, 0, 0, 0, 0]
     0 Map.empty = Inr [65 \<mapsto> 0]
   \<and> static_parseCmapFormat12
     [0, 12, 0, 0, 0, 0, 0, 28, 0, 0, 0, 0, 0, 0, 0, 1, 0, 0, 0, 65, 0, 0, 0, 65, 0, 0, 0, 0]
     0 Map.empty = Inr [65 \<mapsto> 0]"
  by (simp add: parseCmapSubtable_def parseCmapFormat12_def static_parseCmapFormat12_def
      reader_defs upt_rec)

section \<open>A format-4 subtable of one segment\<close>

text \<open>
  The subtable with the one segment \<open>startCode 65, endCode 65, idRangeOffset 0\<close> and the
  \<open>idDelta\<close> of the bytes \<open>d1 d2\<close>; the bytes of the fields the decoder skips are
  arbitrary. The one glyph index is \<open>(65 + idDelta) mod 65536\<close>.
\<close>

lemma format4_single_segment:
  "parseCmapSubtable
     [0, 4, l1, l2, g1, g2, 0, 2, s1, s2, s3, s4, s5, s6, 0, 65, p1, p2, 0, 65, d1, d2, 0, 0, z]
     0 Map.empty
   = Inr (if nat ((65 + (sint d1 * 256 + uint d2)) mod 65536) \<noteq> 0
          then [65 \<mapsto> nat ((65 + (sint d1 * 256 + uint d2)) mod 65536)] else Map.empty)"
  by (simp add: parseCmapSubtable_def parseCmapFormat4_def reader_defs format4GlyphIndex_def
      upt_rec)

text \<open>With \<open>idDelta = -29\<close> (the bytes 255, 227) the code point 65 resolves to 36.\<close>

lemma format4_delta_segment_36:
  "(case loadCmapSubtable
           (newParser\<lparr> buffer := [0, 4, 0, 24, 0, 0, 0, 2, 0, 2, 0, 0, 0, 0,
                                  0, 65, 0, 0, 0, 65, 255, 227, 0, 0, 0] \<rparr>) 0 of
      Inl e \<Rightarrow> None
    | Inr f \<Rightarrow> Some (getGlyphId f 65)) = Some 36"
  by (simp add: loadCmapSubtable_def newParser_def format4_single_segment getGlyphId_def)

text \<open>
  C9, as amended. For a format-4 subtable with exactly one segment with startCode 65,
  endCode 65, idDelta 0 and idRangeOffset 0, the lookup of the code point 65 resolves to
  the glyph index 65, which is \<open>(65 + idDelta) mod 65536\<close>.
\<close>

theorem format4_identity_segment:
  "(case loadCmapSubtable
           (newParser\<lparr> buffer := [0, 4, l1, l2, g1, g2, 0, 2, s1, s2, s3, s4, s5, s6,
                                  0, 65, p1, p2, 0, 65, 0, 0, 0, 0, z] \<rparr>) 0 of
      Inl e \<Rightarrow> None
    | Inr f \<Rightarrow> Some (getGlyphId f 65)) = Some 65"
  by (simp add: loadCmapSubtable_def newParser_def format4_single_segment getGlyphId_def)

text \<open>C9 as stated fails: on that subtable the lookup does not give 36.\<close>

theorem format4_identity_segment_not_36:
  "(case loadCmapSubtable
           (newParser\<lparr> buffer := [0, 4, 0, 24, 0, 0, 0, 2, 0, 2, 0, 0, 0, 0,
                                  0, 65, 0, 0, 0, 65, 0, 0, 0, 0, 0] \<rparr>) 0 of
      Inl e \<Rightarrow> None
    | Inr f \<Rightarrow> Some (getGlyphId f 65)) \<noteq> Some 36"
  by (simp add: loadCmapSubtable_def newParser_def format4_single_segment getGlyphId_def)

section \<open>Operands with the prefix byte 28\<close>

lemma int32At_range: "0 \<le> int32At data i \<and> int32At data i < 256"
proof (cases "i < length data")
  case True
  have "uint (data ! i) < 2 ^ LENGTH(8)" by (rule uint_lt2p)
  with True show ?thesis by (simp add: int32At_def byteAt_def)
next
  case False
  then show ?thesis by (simp add: int32At_def byteAt_def)
qed

lemma shl8_or:
  assumes "0 \<le> a" "a < 256" "0 \<le> b" "b < 256"
  shows "jsOr (jsShl a 8) b = 256 * a + b"
proof -
  have b: "take_bit 8 b = b" using assms by (simp add: take_bit_int_eq_self)
  have "push_bit 8 a AND take_bit 8 b = 0"
    by (simp add: bit_eq_iff bit_simps)
  then have "push_bit 8 a + take_bit 8 b = push_bit 8 a OR take_bit 8 b"
    by (rule disjunctive_add_eq_or)
  then have o: "push_bit 8 a OR b = 256 * a + b"
    by (simp add: b push_bit_eq_mult)
  have "signed_take_bit 31 (push_bit 8 a) = push_bit 8 a"
    using assms by (intro signed_take_bit_int_eq_self) (simp_all add: push_bit_eq_mult)
  then show ?thesis by (simp add: jsOr_def jsShl_def o)
qed

lemma readDictOperand_28:
  assumes "byteAt data index = Some 28"
  shows "readDictOperand data index =
           (Num (of_int (256 * int32At data (index + 1) + int32At data (index + 2))), index + 3)"
  using assms int32At_range [of data "index + 1"] int32At_range [of data "index + 2"]
  by (simp add: readDictOperand_def shl8_or)

lemma readCharStringOperand_28:
  assumes "byteAt data index = Some 28"
  shows "readCharStringOperand data index =
           (Num (of_int (256 * int32At data (index + 1) + int32At data (index + 2))), index + 3)"
  using assms int32At_range [of data "index + 1"] int32At_range [of data "index + 2"]
  by (simp add: readCharStringOperand_def shl8_or)

text \<open>Whatever the two bytes are, both decoders give the same number, and it is not
  negative.\<close>

lemma operand28_never_negative:
  assumes "byteAt data index = Some 28"
  shows "\<exists>v. fst (readDictOperand data index) = Num (of_int v) \<and> 0 \<le> v
           \<and> fst (readCharStringOperand data index) = Num (of_int v)"
  using readDictOperand_28 [OF assms] readCharStringOperand_28 [OF assms]
    int32At_range [of data "index + 1"] int32At_range [of data "index + 2"]
  by (intro exI [of _ "256 * int32At data (index + 1) + int32At data (index + 2)"]) simp

text \<open>
  C4. The claim is that the prefix 28 yields the signed 16-bit value of the next two
  bytes. Both decoders compute \<open>(b1 << 8) | b2\<close>, which is the unsigned value: the bytes
  255, 255 give 65535 (not -1) and 128, 0 give 32768 (not -32768); the four bytes after
  the prefix 29 do give a signed value.
\<close>

theorem operand28_is_unsigned:
  "readDictOperand [28, 255, 255] 0 = (Num 65535, 3)
   \<and> readCharStringOperand [28, 255, 255] 0 = (Num 65535, 3)
   \<and> readDictOperand [28, 128, 0] 0 = (Num 32768, 3)
   \<and> readDictOperand [29, 255, 255, 255, 255] 0 = (Num (- 1), 5)"
  by (simp add: readDictOperand_def readCharStringOperand_def byteAt_def int32At_def
      jsShl_def jsOr_def)

section \<open>Clamping of axis values\<close>

lemma wght_tag:
  "[char_of (119 :: nat), char_of (103 :: nat), char_of (104 :: nat), char_of (116 :: nat)]
     = ''wght''"
  by code_simp

lemma parse_fvarFont: "parseVariableFontTables fvarFont = Inr parsedFvarFont"
  by (simp add: parseVariableFontTables_def parseFvarTable_def fvarFont_def fvarBytes_def
      newParser_def readAxis_def readTag_def readFixed_def reader_defs wght_tag
      parsedFvarFont_def wghtAxis_def)

lemma setAxisEntries_notin:
  "t \<notin> fst ` set kvs \<Longrightarrow> setAxisEntries axes kvs cur t = cur t"
  by (induction kvs arbitrary: cur) (auto split: option.splits)

lemma setAxisEntries_in:
  assumes "distinct (map fst kvs)" "(t, v) \<in> set kvs" "find (\<lambda>a. axisTag a = t) axes = Some a"
  shows "setAxisEntries axes kvs cur t = Some (jmax (Num (axisMin a)) (jmin (Num (axisMax a)) v))"
  using assms
proof (induction kvs arbitrary: cur)
  case Nil
  then show ?case by simp
next
  case (Cons kv kvs)
  obtain t' v' where kv: "kv = (t', v')" by (cases kv)
  show ?case
  proof (cases "t' = t")
    case True
    with Cons.prems kv have "v' = v" and "t \<notin> fst ` set kvs"
      by (auto simp: image_iff)
    with True kv Cons.prems(3) show ?thesis
      by (simp add: setAxisEntries_notin)
  next
    case False
    with Cons kv show ?thesis by auto
  qed
qed

text \<open>An axis of the font is found by its tag; it is the axis itself when no two axes
  share a tag.\<close>

lemma find_axis_present:
  assumes "a \<in> set axes"
  shows "\<exists>a'. find (\<lambda>x. axisTag x = axisTag a) axes = Some a' \<and> axisTag a' = axisTag a"
  using assms by (induction axes) auto

lemma find_axis_distinct:
  assumes "distinct (map axisTag axes)" and "a \<in> set axes"
  shows "find (\<lambda>x. axisTag x = axisTag a) axes = Some a"
  using assms by (induction axes) (auto simp: image_iff)

text \<open>
  C5. In a variable font, let the argument of \<open>setVariation\<close> have the entry \<open>(t, v)\<close>
  (an object has each key once) and let \<open>a\<close> be the axis \<open>find\<close> gives for the tag \<open>t\<close>.
  After the call the current value of \<open>t\<close> is \<open>Math.max(a.min, Math.min(a.max, v))\<close>. For
  a number \<open>v = r\<close> this is \<open>max a.min (min a.max r)\<close>; so, the bounds being in order, a
  value below \<open>a.min\<close> is stored as \<open>a.min\<close> and a value above \<open>a.max\<close> as \<open>a.max\<close>.
\<close>

theorem setVariation_clamps:
  assumes "isVariableFont f" and "distinct (map fst axisValues)"
    and "(t, v) \<in> set axisValues"
    and "find (\<lambda>a. axisTag a = t) (variationAxes f) = Some a"
  shows "currentAxisValues (setVariation f axisValues) t
           = Some (jmax (Num (axisMin a)) (jmin (Num (axisMax a)) v))
         \<and> (\<forall>r. v = Num r \<longrightarrow>
               currentAxisValues (setVariation f axisValues) t
                 = Some (Num (max (axisMin a) (min (axisMax a) r)))
               \<and> (axisMin a \<le> axisMax a \<and> r < axisMin a \<longrightarrow>
                    currentAxisValues (setVariation f axisValues) t = Some (Num (axisMin a)))
               \<and> (axisMin a \<le> axisMax a \<and> axisMax a < r \<longrightarrow>
                    currentAxisValues (setVariation f axisValues) t = Some (Num (axisMax a))))"
proof -
  have st: "currentAxisValues (setVariation f axisValues) t
           = Some (jmax (Num (axisMin a)) (jmin (Num (axisMax a)) v))"
    using assms by (simp add: setVariation_def setAxisEntries_in)
  then show ?thesis by auto
qed

text \<open>The font parsed from \<open>fvarFont\<close> has the axis \<open>wght\<close> from 100 to 900: 1000 is
  stored as 900, 50 as 100, and 650 as it is.\<close>

theorem setVariation_clamps_witness:
  "parseVariableFontTables fvarFont = Inr parsedFvarFont
   \<and> find (\<lambda>a. axisTag a = ''wght'') (variationAxes parsedFvarFont) = Some wghtAxis
   \<and> currentAxisValues (setVariation parsedFvarFont [(''wght'', Num 1000)]) ''wght''
       = Some (Num 900)
   \<and> currentAxisValues (setVariation parsedFvarFont [(''wght'', Num 50)]) ''wght''
       = Some (Num 100)
   \<and> currentAxisValues (setVariation parsedFvarFont [(''wght'', Num 650)]) ''wght''
       = Some (Num 650)"
proof -
  have v: "isVariableFont parsedFvarFont" by (simp add: parsedFvarFont_def)
  have fd: "find (\<lambda>a. axisTag a = ''wght'') (variationAxes parsedFvarFont) = Some wghtAxis"
    by (simp add: parsedFvarFont_def wghtAxis_def)
  have a: "currentAxisValues (setVariation parsedFvarFont [(''wght'', Num 1000)]) ''wght''
             = Some (Num 900)"
    using setVariation_clamps [OF v _ _ fd, of "[(''wght'', Num 1000)]" "Num 1000"]
    by (simp add: wghtAxis_def)
  have b: "currentAxisValues (setVariation parsedFvarFont [(''wght'', Num 50)]) ''wght''
             = Some (Num 100)"
    using setVariation_clamps [OF v _ _ fd, of "[(''wght'', Num 50)]" "Num 50"]
    by (simp add: wghtAxis_def)
  have c: "currentAxisValues (setVariation parsedFvarFont [(''wght'', Num 650)]) ''wght''
             = Some (Num 650)"
    using setVariation_clamps [OF v _ _ fd, of "[(''wght'', Num 650)]" "Num 650"]
    by (simp add: wghtAxis_def)
  show ?thesis using parse_fvarFont fd a b c by simp
qed

section \<open>Fonts without an fvar table\<close>

text \<open>\<open>isVariableFont\<close> is set when the font is loaded, to whether it has an \<open>fvar\<close>
  table, and decoding a glyph does not change it.\<close>

lemma parseVariableFontTables_no_fvar:
  "tables f ''fvar'' = None \<Longrightarrow> parseVariableFontTables f = Inr (f\<lparr> isVariableFont := False \<rparr>)"
  by (simp add: parseVariableFontTables_def)

lemma parseVariableFontTables_isVariableFont:
  "parseVariableFontTables f = Inr f' \<Longrightarrow> isVariableFont f' = (tables f ''fvar'' \<noteq> None)"
  by (auto simp: parseVariableFontTables_def parseFvarTable_def
      split: if_splits option.splits sum.splits prod.splits)

lemma parseGlyph_isVariableFont:
  "parseGlyph room f glyphId = Some (Inr (g, f')) \<Longrightarrow> isVariableFont f' = isVariableFont f"
  by (auto simp: parseGlyph_def
      split: option.splits sum.splits Option.bind_splits prod.splits if_splits)

text \<open>
  C10. When the font is not variable (it has no \<open>fvar\<close> table), \<open>setVariation\<close> returns
  the parser as it is, whatever its argument: the current axis values and the glyph
  cache are unchanged, \<open>parseGlyph\<close> does after it what it did before, and a glyph that
  is in the cache is returned from the cache, the parser left as it is.
\<close>

theorem setVariation_static_noop:
  assumes "\<not> isVariableFont f"
  shows "setVariation f axisValues = f
         \<and> currentAxisValues (setVariation f axisValues) = currentAxisValues f
         \<and> glyphCache (setVariation f axisValues) = glyphCache f
         \<and> parseGlyph room (setVariation f axisValues) glyphId = parseGlyph room f glyphId
         \<and> (\<forall>cached. glyphCache f glyphId = Some cached \<longrightarrow>
               parseGlyph room (setVariation f axisValues) glyphId
                 = Some (Inr (Some cached, f)))"
  using assms by (simp add: setVariation_def parseGlyph_def)

lemma emptyContourFont_header: "glyphHeader emptyContourFont 0 0 = Inr (SimpleGlyph 2, 10)"
  by (simp add: glyphHeader_def emptyContourFont_def newParser_def reader_defs)

lemma emptyContourFont_simple:
  "parseSimpleGlyph (buffer emptyContourFont) 2 10 =
     Inr (\<lparr> contours = [[\<lparr> px = Num 0, py = Num 0, onCurve = True, cubic = None \<rparr>], []] \<rparr>, 17)"
  by (simp add: parseSimpleGlyph_def emptyContourFont_def newParser_def reader_defs
      readFlags.simps hasBit_def pointAt_def coordAt_def upt_rec)

lemma emptyContourFont_glyph:
  "parseTrueTypeGlyph emptyContourFont 0 0 =
     Some (Inr (Some \<lparr> contours = [[\<lparr> px = Num 0, py = Num 0, onCurve = True,
                                       cubic = None \<rparr>], []] \<rparr>, 17))"
  by (simp add: parseTrueTypeGlyph_def emptyContourFont_header emptyContourFont_simple
      simpleResult_def)

lemma emptyContourFont_parseGlyph:
  "parseGlyph room emptyContourFont 0 =
     Some (Inr (Some \<lparr> contours = [[\<lparr> px = Num 0, py = Num 0, onCurve = True,
                                       cubic = None \<rparr>], []] \<rparr>,
                cachedFont))"
proof -
  have "glyphCache emptyContourFont = Map.empty" "fontType emptyContourFont = Some TrueType"
    "offset emptyContourFont = 0" "\<not> isVariableFont emptyContourFont"
    by (simp_all add: emptyContourFont_def newParser_def)
  then show ?thesis
    by (simp add: parseGlyph_def emptyContourFont_glyph applyVariationToGlyph_def cachedFont_def)
qed

text \<open>\<open>emptyContourFont\<close> has no \<open>fvar\<close> table; with its glyph 0 in the cache
  (\<open>cachedFont\<close>), \<open>setVariation({wght: 700})\<close> changes nothing and the glyph is returned
  from the cache.\<close>

theorem setVariation_static_noop_witness:
  "parseVariableFontTables emptyContourFont = Inr emptyContourFont
   \<and> \<not> isVariableFont cachedFont
   \<and> setVariation cachedFont [(''wght'', Num 700)] = cachedFont
   \<and> parseGlyph 10000 (setVariation cachedFont [(''wght'', Num 700)]) 0
       = Some (Inr (Some \<lparr> contours = [[\<lparr> px = Num 0, py = Num 0, onCurve = True,
                                           cubic = None \<rparr>], []] \<rparr>,
                    cachedFont))"
proof -
  have nv: "\<not> isVariableFont cachedFont"
    by (simp add: cachedFont_def emptyContourFont_def newParser_def)
  have c: "glyphCache cachedFont 0
             = Some \<lparr> contours = [[\<lparr> px = Num 0, py = Num 0, onCurve = True, cubic = None \<rparr>],
                                  []] \<rparr>"
    by (simp add: cachedFont_def)
  have p: "parseVariableFontTables emptyContourFont = Inr emptyContourFont"
    by (simp add: parseVariableFontTables_def emptyContourFont_def newParser_def)
  from setVariation_static_noop [OF nv, of "[(''wght'', Num 700)]" 10000 0]
  have a: "setVariation cachedFont [(''wght'', Num 700)] = cachedFont"
    and b: "\<forall>cached. glyphCache cachedFont 0 = Some cached \<longrightarrow>
              parseGlyph 10000 (setVariation cachedFont [(''wght'', Num 700)]) 0
                = Some (Inr (Some cached, cachedFont))"
    by blast+
  from b c have "parseGlyph 10000 (setVariation cachedFont [(''wght'', Num 700)]) 0
       = Some (Inr (Some \<lparr> contours = [[\<lparr> px = Num 0, py = Num 0, onCurve = True,
                                           cubic = None \<rparr>], []] \<rparr>,
                    cachedFont))"
    by blast
  with a nv p show ?thesis by blast
qed

section \<open>Path commands of a glyph\<close>

lemma emitSegments_inner:
  "list_all (\<lambda>c. \<not> isMove c \<and> \<not> isClose c) (emitSegments scale flipY offsetX offsetY pts i)"
proof (induction scale flipY offsetX offsetY pts i rule: emitSegments.induct)
  case (1 scale flipY offsetX offsetY pts i)
  show ?case
    by (subst emitSegments.simps) (use 1 in \<open>auto split: option.splits\<close>)
qed

lemma contourToSVGPath_shape:
  assumes "points \<noteq> []"
  shows "\<exists>x y body. contourToSVGPath points scale flipY offsetX offsetY = PathM x y # body @ [PathZ]
           \<and> list_all (\<lambda>c. \<not> isMove c \<and> \<not> isClose c) body"
  using assms emitSegments_inner by (auto simp: contourToSVGPath_def)

lemma filter_isMove_inner:
  "list_all (\<lambda>c. \<not> isMove c \<and> \<not> isClose c) body \<Longrightarrow> filter isMove body = []"
  by (induction body) auto

lemma contourToSVGPath_moves:
  "length (filter isMove (contourToSVGPath points scale flipY offsetX offsetY))
     = (if points = [] then 0 else 1)"
proof (cases "points = []")
  case True
  then show ?thesis by (simp add: contourToSVGPath_def)
next
  case False
  from contourToSVGPath_shape [OF False, of scale flipY offsetX offsetY]
  obtain x y body where
    "contourToSVGPath points scale flipY offsetX offsetY = PathM x y # body @ [PathZ]"
    and "list_all (\<lambda>c. \<not> isMove c \<and> \<not> isClose c) body"
    by blast
  with False show ?thesis by (simp add: filter_isMove_inner)
qed

lemma concat_moves:
  "length (filter isMove (concat (map (\<lambda>c. contourToSVGPath c scale flipY offsetX offsetY) cs)))
     = length (filter (\<lambda>c. c \<noteq> []) cs)"
  by (induction cs) (simp_all add: contourToSVGPath_moves)

lemma glyphToSVGPath_glyphPath:
  assumes "glyphToSVGPath room f character options = Some (Inr (cmds, f1))"
  shows "\<exists>g. parseGlyph room f (getGlyphId f character) = Some (Inr (g, f1)) \<and> cmds = glyphPath g options"
  using assms
  by (auto simp: glyphToSVGPath_def split: Option.bind_splits sum.splits)

text \<open>A glyph decoded from a CharString has no contour without points
  (\<open>cffPathToGlyph\<close> pushes a contour only when it has one).\<close>

lemma cffContours_nonempty:
  assumes "list_all (\<lambda>c. c \<noteq> []) cs"
  shows "list_all (\<lambda>c. c \<noteq> []) (cffContours p cur cs)"
  using assms by (induction p cur cs rule: cffContours.induct) simp_all

lemma cffPathToGlyph_nonempty:
  "cffPathToGlyph p = Some g \<Longrightarrow> list_all (\<lambda>c. c \<noteq> []) (contours g)"
  using cffContours_nonempty [of "[]" p "[]"]
  by (auto simp: cffPathToGlyph_def split: if_splits)

text \<open>
  C2, as amended. The path of a glyph is the paths of its contours one after the
  other. A contour with no point contributes nothing; the path of a contour with at
  least one point is one \<open>M\<close>, then commands that are neither \<open>M\<close> nor \<open>Z\<close>, then one
  \<open>Z\<close>. So the number of \<open>M\<close> commands is the number of contours that have a point.
  The path \<open>glyphToSVGPath\<close> returns is that of the glyph \<open>parseGlyph\<close> returns.
\<close>

theorem path_one_move_per_nonempty_contour:
  "glyphPath (Some g) options
     = concat (map (\<lambda>c. contourToSVGPath c (jor (optScale options) (Num 1))
                          (optFlipY options \<noteq> Some False)
                          (jor (optOffsetX options) (Num 0)) (jor (optOffsetY options) (Num 0)))
                (contours g))
   \<and> length (filter isMove (glyphPath (Some g) options))
       = length (filter (\<lambda>c. c \<noteq> []) (contours g))
   \<and> (\<forall>points scale flipY offsetX offsetY. points \<noteq> [] \<longrightarrow>
         (\<exists>x y body.
            contourToSVGPath points scale flipY offsetX offsetY = PathM x y # body @ [PathZ]
            \<and> list_all (\<lambda>c. \<not> isMove c \<and> \<not> isClose c) body))
   \<and> (\<forall>scale flipY offsetX offsetY. contourToSVGPath [] scale flipY offsetX offsetY = [])
   \<and> (\<forall>room f character cmds f1.
         glyphToSVGPath room f character options = Some (Inr (cmds, f1)) \<longrightarrow>
         (\<exists>g1. parseGlyph room f (getGlyphId f character) = Some (Inr (g1, f1))
                \<and> cmds = glyphPath g1 options))"
proof -
  have a: "glyphPath (Some g) options
     = concat (map (\<lambda>c. contourToSVGPath c (jor (optScale options) (Num 1))
                          (optFlipY options \<noteq> Some False)
                          (jor (optOffsetX options) (Num 0)) (jor (optOffsetY options) (Num 0)))
                (contours g))"
    by (simp add: glyphPath_def)
  have b: "length (filter isMove (glyphPath (Some g) options))
       = length (filter (\<lambda>c. c \<noteq> []) (contours g))"
    unfolding a by (rule concat_moves)
  have c: "\<forall>scale flipY offsetX offsetY. contourToSVGPath [] scale flipY offsetX offsetY = []"
    by (simp add: contourToSVGPath_def)
  from a b c contourToSVGPath_shape glyphToSVGPath_glyphPath show ?thesis by blast
qed

text \<open>The path of \<open>sampleGlyph\<close> with the options \<open>{}\<close>: two contours, two \<open>M\<close>.\<close>

lemma sampleGlyph_path:
  "glyphPath (Some sampleGlyph) noOptions =
     [PathM (Num 0) (Num 0), PathQ (Num 10) (Num (- 10)) (Num 20) (Num 0), PathZ,
      PathM (Num 2) (Num (- 1)), PathQ (Num 1) (Num (- 1)) (Num 2) (Num (- 1)),
      PathQ (Num 3) (Num (- 1)) (Num 2) (Num (- 1)), PathZ]"
  by (simp add: glyphPath_def sampleGlyph_def noOptions_def contourToSVGPath_def withFirstOn_def
      emitSegments.simps midPoint_def coordX_def coordY_def)

theorem path_one_move_per_nonempty_contour_witness:
  "length (filter isMove (glyphPath (Some sampleGlyph) noOptions)) = 2
   \<and> length (contours sampleGlyph) = 2
   \<and> glyphPath (Some sampleGlyph) noOptions =
       [PathM (Num 0) (Num 0), PathQ (Num 10) (Num (- 10)) (Num 20) (Num 0), PathZ,
        PathM (Num 2) (Num (- 1)), PathQ (Num 1) (Num (- 1)) (Num 2) (Num (- 1)),
        PathQ (Num 3) (Num (- 1)) (Num 2) (Num (- 1)), PathZ]"
proof -
  from path_one_move_per_nonempty_contour [of sampleGlyph noOptions]
  have "length (filter isMove (glyphPath (Some sampleGlyph) noOptions))
       = length (filter (\<lambda>c. c \<noteq> []) (contours sampleGlyph))"
    by blast
  then have "length (filter isMove (glyphPath (Some sampleGlyph) noOptions)) = 2"
    by (simp add: sampleGlyph_def)
  moreover have "length (contours sampleGlyph) = 2" by (simp add: sampleGlyph_def)
  ultimately show ?thesis using sampleGlyph_path by blast
qed

text \<open>
  C2 as stated fails where a decoded glyph has a contour without points. In
  \<open>emptyContourFont\<close> the glyph of the code point 65 (glyph 0) has two contours, the
  second one empty (its end point repeats the first one's), and its path has one \<open>M\<close>.
\<close>

theorem empty_contour_without_move:
  "glyphToSVGPath 10000 emptyContourFont 65 noOptions
     = Some (Inr ([PathM (Num 0) (Num 0), PathZ], cachedFont))
   \<and> parseGlyph 10000 emptyContourFont (getGlyphId emptyContourFont 65)
       = Some (Inr (Some \<lparr> contours = [[\<lparr> px = Num 0, py = Num 0, onCurve = True,
                                           cubic = None \<rparr>], []] \<rparr>,
                    cachedFont))
   \<and> length (filter isMove [PathM (Num 0) (Num 0), PathZ])
       \<noteq> length [[\<lparr> px = Num 0, py = Num 0, onCurve = True, cubic = None \<rparr>], []]"
proof -
  have g: "getGlyphId emptyContourFont 65 = 0"
    by (simp add: getGlyphId_def emptyContourFont_def newParser_def)
  have p: "glyphPath (Some \<lparr> contours = [[\<lparr> px = Num 0, py = Num 0, onCurve = True,
                                             cubic = None \<rparr>], []] \<rparr>) noOptions
             = [PathM (Num 0) (Num 0), PathZ]"
    by (simp add: glyphPath_def noOptions_def contourToSVGPath_def withFirstOn_def
        emitSegments.simps coordX_def coordY_def)
  show ?thesis
    by (simp add: glyphToSVGPath_def g emptyContourFont_parseGlyph p)
qed

section \<open>Subroutine bias and subroutine calls\<close>

lemma subrBias_values:
  "subrBias n = (if n < 1240 then 107 else if n < 33900 then 1131 else 32768)"
  by (simp add: subrBias_def)

text \<open>What \<open>_parseCFFTable\<close> and \<open>parsePrivateDict\<close> leave in the four fields.\<close>

lemma stored_tables:
  "cffGlobalSubrs (storeLocalSubrs ls (storeGlobalSubrs gs f0)) = gs"
  "cffLocalSubrs (storeLocalSubrs ls (storeGlobalSubrs gs f0)) = (case ls of None \<Rightarrow> [] | Some l \<Rightarrow> l)"
  "cffGlobalBias (storeLocalSubrs ls (storeGlobalSubrs gs f0)) = subrBias (length gs)"
  "cffLocalBias (storeLocalSubrs ls (storeGlobalSubrs gs f0))
     = (case ls of None \<Rightarrow> 0 | Some l \<Rightarrow> subrBias (length l))"
  by (cases ls; simp add: storeLocalSubrs_def storeGlobalSubrs_def)+

text \<open>The bias a call operator uses is that of the count of its table, also when the
  Private DICT has no Subrs operator (the bias stored is 0 then, the table is empty, and
  \<open>0 || 107\<close> is the bias of an empty table), and when the font has no Private DICT at
  all (the fields are as the constructor left them: an empty table, the bias 107).\<close>

lemma callBias_stored:
  assumes "op = 10 \<or> op = 29"
  shows "callBias (storeLocalSubrs ls (storeGlobalSubrs gs f)) op
           = subrBias (length (callSubrs (storeLocalSubrs ls (storeGlobalSubrs gs f)) op))"
  using assms
  by (cases ls) (auto simp: callBias_def callSubrs_def storeLocalSubrs_def storeGlobalSubrs_def
      subrBias_def)

lemma callBias_constructor:
  assumes "op = 10 \<or> op = 29"
  shows "callBias (storeGlobalSubrs gs newParser) op
           = subrBias (length (callSubrs (storeGlobalSubrs gs newParser) op))"
  using assms
  by (auto simp: callBias_def callSubrs_def storeGlobalSubrs_def newParser_def subrBias_def)

text \<open>The index called for a number \<open>v\<close> popped: \<open>Math.round(v)\<close> plus the bias, when it
  lies within the table.\<close>

lemma calledIndex_Num:
  "calledIndex f op (Num v) =
     (if 0 \<le> \<lfloor>v + 1 / 2\<rfloor> + int (callBias f op)
         \<and> \<lfloor>v + 1 / 2\<rfloor> + int (callBias f op) < int (length (callSubrs f op))
      then Some (nat (\<lfloor>v + 1 / 2\<rfloor> + int (callBias f op))) else None)"
proof -
  have r: "adjustedIndex f op (Num v) = Num (of_int (\<lfloor>v + 1 / 2\<rfloor> + int (callBias f op)))"
    by (simp add: adjustedIndex_def)
  show ?thesis
    unfolding calledIndex_def r by (simp add: floor_less_iff of_int_less_iff [symmetric] del: of_int_less_iff)
qed

text \<open>The turns of the loop of \<open>drawCFF\<close>: at the end of the charstring, at \<open>return\<close>,
  at an operator that is no call, at a call operator, and at a one-byte operand.\<close>

lemma drawLoop_end: "length cs \<le> i \<Longrightarrow> drawLoop room f cs i st = Inr st"
  by (subst drawLoop.simps) simp

lemma drawLoop_return:
  "i < length cs \<Longrightarrow> cs ! i = 11 \<Longrightarrow> drawLoop room f cs i st = Inr st"
  by (subst drawLoop.simps) simp

lemma drawLoop_operator:
  assumes "i < length cs" and "cs ! i < 32" and "cs ! i \<noteq> 10" "cs ! i \<noteq> 11" "cs ! i \<noteq> 12" "cs ! i \<noteq> 29"
  shows "drawLoop room f cs i st = drawLoop room f cs (i + 1) (execOp (unat (cs ! i)) st)"
proof -
  from assms(2) have "uint (cs ! i) < 32" by (simp add: word_less_def)
  moreover from assms(3-6) have "uint (cs ! i) \<noteq> 10" "uint (cs ! i) \<noteq> 11" "uint (cs ! i) \<noteq> 12" "uint (cs ! i) \<noteq> 29"
    by (auto simp: word_uint_eq_iff)
  ultimately show ?thesis using assms(1) by (subst drawLoop.simps) simp
qed

lemma drawLoop_call:
  assumes "i < length cs" and "cs ! i = 10 \<or> cs ! i = 29" and "stack st \<noteq> []"
  shows "drawLoop room f cs i st =
           (case calledIndex f (unat (cs ! i)) (popVal (stack st)) of
              Some k \<Rightarrow>
                (case drawCFF room f (callSubrs f (unat (cs ! i)) ! k)
                        (st\<lparr> stack := butlast (stack st) \<rparr>) of
                   Inl e \<Rightarrow> Inl e
                 | Inr st1 \<Rightarrow> drawLoop room f cs (i + 1) st1)
            | None \<Rightarrow> drawLoop room f cs (i + 1) (st\<lparr> stack := butlast (stack st) \<rparr>))"
  using assms by (subst drawLoop.simps) (auto simp: drawCFF_def split: option.splits nat.splits)

text \<open>A call operator that finds the stack empty does nothing; one that pops a value
  that is no number (\<open>NaN\<close> or \<open>undefined\<close>) calls no subroutine.\<close>

lemma drawLoop_call_without_number:
  assumes "i < length cs" and "cs ! i = 10 \<or> cs ! i = 29"
  shows "stack st = [] \<Longrightarrow> drawLoop room f cs i st = drawLoop room f cs (i + 1) st"
    and "stack st = ops @ [v] \<Longrightarrow> v = NaN \<or> v = Undefined \<Longrightarrow>
           drawLoop room f cs i st = drawLoop room f cs (i + 1) (st\<lparr> stack := ops \<rparr>)"
proof -
  show "stack st = [] \<Longrightarrow> drawLoop room f cs i st = drawLoop room f cs (i + 1) st"
    using assms by (subst drawLoop.simps) auto
next
  assume st: "stack st = ops @ [v]" and v: "v = NaN \<or> v = Undefined"
  then have "calledIndex f (unat (cs ! i)) (popVal (stack st)) = None"
    by (auto simp: calledIndex_def adjustedIndex_def popVal_def)
  with drawLoop_call [OF assms, of st room f] st
  show "drawLoop room f cs i st = drawLoop room f cs (i + 1) (st\<lparr> stack := ops \<rparr>)"
    by simp
qed


text \<open>A subroutine that is one operator followed by \<open>return\<close>.\<close>

lemma drawCFF_operator_return:
  assumes "b < 32" and "b \<noteq> 10" "b \<noteq> 11" "b \<noteq> 12" "b \<noteq> 29"
  shows "drawCFF room f [b, 11] st
           = (if room = 0 then Inl CallStackExceeded else Inr (execOp (unat b) st))"
proof (cases room)
  case 0
  then show ?thesis by (simp add: drawCFF_def)
next
  case (Suc rest)
  have "drawLoop rest f [b, 11] 0 st = drawLoop rest f [b, 11] (0 + 1) (execOp (unat ([b, 11] ! 0)) st)"
    using assms by (intro drawLoop_operator) simp_all
  also have "\<dots> = Inr (execOp (unat b) st)"
    by (simp add: drawLoop_return)
  finally show ?thesis using Suc by (simp add: drawCFF_def)
qed

text \<open>
  C6. Let the parser hold the global subroutine INDEX \<open>gs\<close> and the local one \<open>ls\<close> as
  \<open>_parseCFFTable\<close> and \<open>parsePrivateDict\<close> store them (\<open>ls\<close> is \<open>None\<close>, and the local table
  empty, when the Private DICT has no Subrs operator). The bias stored with an INDEX is
  107 for fewer than 1240 entries, 1131 for fewer than 33900, and 32768 otherwise. Let
  the byte at \<open>i\<close> be callsubr (10) or callgsubr (29), with a number \<open>v\<close> on top of the
  stack. The table of the operator is the local one for callsubr and the global one for
  callgsubr, and the index is \<open>Math.round(v)\<close> plus the bias of the count of that table
  (\<open>v\<close> plus the bias when \<open>v\<close> is an integer). When the index lies within the table,
  the operator pops \<open>v\<close> and calls \<open>drawCFF\<close> on the subroutine at that index of that
  table, and the loop goes on after the operator with the state the call leaves;
  otherwise the operator pops \<open>v\<close> and the loop goes on. In particular, when the
  subroutine at that index is one operator \<open>b\<close> (no call, return or escape) followed by
  \<open>return\<close>, and the call operator ends the charstring, the interpretation gives the
  state operator \<open>b\<close> makes of the state with \<open>v\<close> popped (the call stack having room
  for the call).
\<close>

theorem callsubr_index_is_operand_plus_bias:
  assumes "f = storeLocalSubrs ls (storeGlobalSubrs gs f0)"
    and "i < length cs" and "cs ! i = 10 \<or> cs ! i = 29"
    and "stack st = ops @ [Num v]"
  shows
    "let biasOf = (\<lambda>n :: nat. if n < 1240 then 107 else if n < 33900 then 1131 else 32768 :: nat);
         localTable = (case ls of None \<Rightarrow> [] | Some l \<Rightarrow> l);
         table = (if cs ! i = 10 then localTable else gs);
         index = \<lfloor>v + 1 / 2\<rfloor> + int (biasOf (length table));
         popped = st\<lparr> stack := ops \<rparr>
     in cffGlobalSubrs f = gs \<and> cffGlobalBias f = biasOf (length gs)
        \<and> cffLocalSubrs f = localTable
        \<and> (ls \<noteq> None \<longrightarrow> cffLocalBias f = biasOf (length localTable))
        \<and> (\<forall>z. v = of_int z \<longrightarrow> index = z + int (biasOf (length table)))
        \<and> (0 \<le> index \<and> index < int (length table) \<longrightarrow>
              drawLoop room f cs i st =
                (case drawCFF room f (table ! nat index) popped of
                   Inl e \<Rightarrow> Inl e
                 | Inr st1 \<Rightarrow> drawLoop room f cs (i + 1) st1))
        \<and> (\<not> (0 \<le> index \<and> index < int (length table)) \<longrightarrow>
              drawLoop room f cs i st = drawLoop room f cs (i + 1) popped)
        \<and> (\<forall>b. 0 \<le> index \<and> index < int (length table) \<and> table ! nat index = [b, 11]
                \<and> b < 32 \<and> b \<noteq> 10 \<and> b \<noteq> 11 \<and> b \<noteq> 12 \<and> b \<noteq> 29 \<and> i + 1 = length cs \<longrightarrow>
              drawLoop room f cs i st
                = (if room = 0 then Inl CallStackExceeded else Inr (execOp (unat b) popped)))"
proof -
  define biasOf where
    "biasOf = (\<lambda>n :: nat. if n < 1240 then 107 else if n < 33900 then 1131 else 32768 :: nat)"
  define localTable where "localTable = (case ls of None \<Rightarrow> [] | Some l \<Rightarrow> l)"
  define table where "table = (if cs ! i = 10 then localTable else gs)"
  define index where "index = \<lfloor>v + 1 / 2\<rfloor> + int (biasOf (length table))"
  define popped where "popped = st\<lparr> stack := ops \<rparr>"
  have sb: "subrBias = biasOf" by (simp add: fun_eq_iff subrBias_def biasOf_def)
  have g: "cffGlobalSubrs f = gs" "cffGlobalBias f = biasOf (length gs)"
    unfolding assms(1) by (simp_all add: stored_tables sb)
  have l: "cffLocalSubrs f = localTable"
    unfolding assms(1) localTable_def by (simp add: stored_tables)
  have lb: "ls \<noteq> None \<longrightarrow> cffLocalBias f = biasOf (length localTable)"
    unfolding assms(1) localTable_def by (cases ls) (simp_all add: stored_tables sb)
  have op: "unat (cs ! i) = 10 \<or> unat (cs ! i) = 29" using assms(3) by auto
  have ten: "(unat (cs ! i) = 10) = (cs ! i = 10)" using assms(3) by auto
  have tb: "callSubrs f (unat (cs ! i)) = table"
    by (simp add: callSubrs_def table_def g l ten)
  have cb: "callBias f (unat (cs ! i)) = biasOf (length table)"
    using callBias_stored [OF op, of ls gs f0] tb unfolding assms(1) [symmetric] sb by simp
  have z: "\<forall>z. v = of_int z \<longrightarrow> index = z + int (biasOf (length table))"
  proof (intro allI impI)
    fix z :: int assume "v = of_int z"
    then have "\<lfloor>v + 1 / 2\<rfloor> = z" by linarith
    then show "index = z + int (biasOf (length table))" by (simp add: index_def)
  qed
  have pv: "popVal (stack st) = Num v" "butlast (stack st) = ops" "stack st \<noteq> []"
    using assms(4) by (simp_all add: popVal_def)
  have ci: "calledIndex f (unat (cs ! i)) (popVal (stack st))
              = (if 0 \<le> index \<and> index < int (length table) then Some (nat index) else None)"
    unfolding pv calledIndex_Num tb cb index_def ..
  note run = drawLoop_call [OF assms(2,3) pv(3), of room f, unfolded ci tb pv(2)]
  have inr: "0 \<le> index \<and> index < int (length table) \<longrightarrow>
              drawLoop room f cs i st =
                (case drawCFF room f (table ! nat index) popped of
                   Inl e \<Rightarrow> Inl e
                 | Inr st1 \<Rightarrow> drawLoop room f cs (i + 1) st1)"
    using run by (simp add: popped_def)
  have out: "\<not> (0 \<le> index \<and> index < int (length table)) \<longrightarrow>
              drawLoop room f cs i st = drawLoop room f cs (i + 1) popped"
    using run by (simp add: popped_def)
  have pin: "\<forall>b. 0 \<le> index \<and> index < int (length table) \<and> table ! nat index = [b, 11]
                \<and> b < 32 \<and> b \<noteq> 10 \<and> b \<noteq> 11 \<and> b \<noteq> 12 \<and> b \<noteq> 29 \<and> i + 1 = length cs \<longrightarrow>
              drawLoop room f cs i st
                = (if room = 0 then Inl CallStackExceeded else Inr (execOp (unat b) popped))"
  proof (intro allI impI, elim conjE)
    fix b :: byte
    assume h: "0 \<le> index" "index < int (length table)" "table ! nat index = [b, 11]"
      "b < 32" "b \<noteq> 10" "b \<noteq> 11" "b \<noteq> 12" "b \<noteq> 29" "i + 1 = length cs"
    from inr h(1,2,3) have "drawLoop room f cs i st =
                (case drawCFF room f [b, 11] popped of
                   Inl e \<Rightarrow> Inl e
                 | Inr st1 \<Rightarrow> drawLoop room f cs (i + 1) st1)" by simp
    then show "drawLoop room f cs i st
                = (if room = 0 then Inl CallStackExceeded else Inr (execOp (unat b) popped))"
      using h(9) by (simp add: drawCFF_operator_return [OF h(4-8)] drawLoop_end)
  qed
  from g l lb z inr out pin show ?thesis
    unfolding Let_def biasOf_def [symmetric] localTable_def [symmetric] table_def [symmetric]
      index_def [symmetric] popped_def [symmetric]
    by blast
qed

lemma moveSubrFont_tables:
  "moveSubrFont = storeLocalSubrs (Some [[21, 11]])
       (storeGlobalSubrs (replicate 1240 [22, 11])
          (newParser\<lparr> fontType := Some CFF,
                       cffCharStrings := [[144, 146, 32, 10], [144, 254, 255, 29]] \<rparr>))"
  by (simp add: moveSubrFont_def)

text \<open>In \<open>moveSubrFont\<close> the call operator of glyph 0, callsubr with -107 popped, runs
  the local subroutine 0 (\<open>rmoveto\<close> to (5, 7)); that of glyph 1, callgsubr with -1131
  popped, runs the global subroutine 0 (\<open>hmoveto\<close> to (5, 0)).\<close>

theorem callsubr_index_witness:
  "cffLocalBias moveSubrFont = 107 \<and> cffGlobalBias moveSubrFont = 1131
   \<and> drawLoop 10000 moveSubrFont [144, 146, 32, 10] 3
        (initialPen\<lparr> stack := [Num 5, Num 7, Num (- 107)] \<rparr>)
       = Inr \<lparr> stack = [], penX = Num 5, penY = Num 7, nStems = 0, haveWidth = False,
               width = Num 0, isOpen = True, path = [MoveTo (Num 5) (Num 7)] \<rparr>
   \<and> drawLoop 10000 moveSubrFont [144, 254, 255, 29] 3
        (initialPen\<lparr> stack := [Num 5, Num (- 1131)] \<rparr>)
       = Inr \<lparr> stack = [], penX = Num 5, penY = Num 0, nStems = 0, haveWidth = False,
               width = Num 0, isOpen = True, path = [MoveTo (Num 5) (Num 0)] \<rparr>"
proof -
  have f1: "(- 107 :: real) = of_int (- 107)" and f2: "(- 1131 :: real) = of_int (- 1131)"
    by simp_all
  have r1: "execOp 21 (initialPen\<lparr> stack := [Num 5, Num 7] \<rparr>)
              = \<lparr> stack = [], penX = Num 5, penY = Num 7, nStems = 0, haveWidth = False,
                  width = Num 0, isOpen = True, path = [MoveTo (Num 5) (Num 7)] \<rparr>"
    by (simp add: execOp_def opRmoveto_def initialPen_def closeIfOpen_def shiftVal_def Let_def)
  have r2: "execOp 22 (initialPen\<lparr> stack := [Num 5] \<rparr>)
              = \<lparr> stack = [], penX = Num 5, penY = Num 0, nStems = 0, haveWidth = False,
                  width = Num 0, isOpen = True, path = [MoveTo (Num 5) (Num 0)] \<rparr>"
    by (simp add: execOp_def opHmoveto_def initialPen_def closeIfOpen_def shiftVal_def popVal_def
        Let_def)
  from callsubr_index_is_operand_plus_bias [OF moveSubrFont_tables,
      of 3 "[144, 146, 32, 10]" "initialPen\<lparr> stack := [Num 5, Num 7, Num (- 107)] \<rparr>"
         "[Num 5, Num 7]" "- 107" 10000]
  have a: "cffLocalBias moveSubrFont = 107 \<and> cffGlobalBias moveSubrFont = 1131
           \<and> drawLoop 10000 moveSubrFont [144, 146, 32, 10] 3
                (initialPen\<lparr> stack := [Num 5, Num 7, Num (- 107)] \<rparr>)
               = Inr (execOp 21 (initialPen\<lparr> stack := [Num 5, Num 7] \<rparr>))"
    by (simp add: Let_def drawCFF_operator_return drawLoop_end)
  from callsubr_index_is_operand_plus_bias [OF moveSubrFont_tables,
      of 3 "[144, 254, 255, 29]" "initialPen\<lparr> stack := [Num 5, Num (- 1131)] \<rparr>"
         "[Num 5]" "- 1131" 10000]
  have b: "drawLoop 10000 moveSubrFont [144, 254, 255, 29] 3
                (initialPen\<lparr> stack := [Num 5, Num (- 1131)] \<rparr>)
               = Inr (execOp 22 (initialPen\<lparr> stack := [Num 5] \<rparr>))"
    by (simp add: Let_def drawCFF_operator_return drawLoop_end)
  from a b show ?thesis unfolding r1 r2 by blast
qed

text \<open>The two glyphs decoded as a whole; with room for one activation only, the call
  of the subroutine throws and the glyph is \<open>null\<close>.\<close>

lemma moveSubrFont_glyphs:
  "parseCFFGlyph 2 moveSubrFont 0
     = Some \<lparr> contours = [[\<lparr> px = Num 5, py = Num 7, onCurve = True, cubic = None \<rparr>]] \<rparr>"
  "parseCFFGlyph 2 moveSubrFont 1
     = Some \<lparr> contours = [[\<lparr> px = Num 5, py = Num 0, onCurve = True, cubic = None \<rparr>]] \<rparr>"
  "parseCFFGlyph 1 moveSubrFont 1 = None"
  by (simp_all add: parseCFFGlyph_def drawCFF_def drawLoop.simps moveSubrFont_def
      stored_tables readCharStringOperand_def byteAt_def numAt_def popVal_def calledIndex_def
      adjustedIndex_def callBias_def callSubrs_def subrBias_def execOp_def opRmoveto_def
      opHmoveto_def initialPen_def closeIfOpen_def shiftVal_def cffPathToGlyph_def
      storeLocalSubrs_def storeGlobalSubrs_def newParser_def Let_def)

section \<open>Subroutine calls that nest without end\<close>

text \<open>
  A local subroutine \<open>k\<close> that begins with a one-byte operand and the operator callsubr,
  the operand being its own number less the bias, calls itself: whatever room the call
  stack has, and whatever the state, its interpretation ends with the \<open>RangeError\<close> of
  the engine.
\<close>

lemma calledIndex_self:
  assumes k: "k < length (cffLocalSubrs f)"
    and idx: "z + int (callBias f 10) = int k"
  shows "calledIndex f 10 (Num (of_int z)) = Some k"
proof -
  have fl: "\<lfloor>(of_int z :: real) + 1 / 2\<rfloor> = z" by linarith
  have "adjustedIndex f 10 (Num (of_int z)) = Num (of_int (z + int (callBias f 10)))"
    by (simp add: adjustedIndex_def fl)
  then have "adjustedIndex f 10 (Num (of_int z)) = Num (real k)"
    using idx by simp
  then show ?thesis using k by (simp add: calledIndex_def callSubrs_def)
qed



text \<open>
  Calls nest as deep as the font makes them, and no deeper than the call stack allows:
  the local subroutine \<open>callsubr\<close> (the byte 10 alone), called with \<open>n\<close> operands of its
  own number less the bias on the stack, calls itself \<open>n\<close> times, one call inside the
  other, and returns with the stack empty when the call stack has room for \<open>n\<close>
  activations; with less room the interpretation ends with the \<open>RangeError\<close>.
\<close>

lemma call_nesting_follows_operands:
  assumes k: "k < length (cffLocalSubrs f)" and sub: "cffLocalSubrs f ! k = [10]"
    and idx: "z + int (callBias f 10) = int k"
    and st: "stack st = replicate n (Num (of_int z))"
  shows "drawLoop room f [10] 0 st
           = (if n \<le> room then Inr (st\<lparr> stack := [] \<rparr>) else Inl CallStackExceeded)"
  using st
proof (induction n arbitrary: room st)
  case 0
  then have "drawLoop room f [10] 0 st = drawLoop room f [10] 1 st"
    by (subst drawLoop.simps) simp
  with 0 show ?case by (simp add: drawLoop_end)
next
  case (Suc n)
  have ne: "stack st \<noteq> []" using Suc.prems by simp
  have "stack st = replicate n (Num (of_int z)) @ [Num (of_int z)]"
    using Suc.prems by (simp add: replicate_append_same)
  then have pv: "popVal (stack st) = Num (of_int z)"
    "butlast (stack st) = replicate n (Num (of_int z))"
    by (simp_all add: popVal_def)
  have ci: "calledIndex f (unat (([10] :: byte list) ! 0)) (popVal (stack st)) = Some k"
    using calledIndex_self [OF k idx] pv by simp
  have cs: "callSubrs f (unat (([10] :: byte list) ! 0)) ! k = [10]"
    using sub by (simp add: callSubrs_def)
  have run: "drawLoop room f [10] 0 st =
          (case drawCFF room f [10] (st\<lparr> stack := butlast (stack st) \<rparr>) of
             Inl e \<Rightarrow> Inl e
           | Inr st1 \<Rightarrow> drawLoop room f [10] (0 + 1) st1)"
    using drawLoop_call [of 0 "[10]" st room f] ne ci cs by simp
  show ?case
  proof (cases room)
    case 0
    with run show ?thesis by (simp add: drawCFF_def)
  next
    case (Suc rest)
    have "drawLoop rest f [10] 0 (st\<lparr> stack := butlast (stack st) \<rparr>)
            = (if n \<le> rest then Inr (st\<lparr> stack := [] \<rparr>) else Inl CallStackExceeded)"
      using Suc.IH [of "st\<lparr> stack := butlast (stack st) \<rparr>" rest] pv(2) by simp
    with run Suc show ?thesis by (simp add: drawCFF_def drawLoop_end)
  qed
qed





section \<open>Components with the identity transform\<close>

text \<open>
  With the identity matrix and the offset (0, 0) a point with two numbers as coordinates
  is copied as it is; in any other point both coordinates of the copy are \<open>NaN\<close>
  (\<open>undefined * 1\<close> is \<open>NaN\<close>).
\<close>

lemma transformPoint_identity:
  assumes "m00 c = 1" "m01 c = 0" "m10 c = 0" "m11 c = 1" "cDx c = 0" "cDy c = 0"
  shows "transformPoint c pt = nanPoint pt"
  using assms
  by (cases "px pt"; cases "py pt")
     (simp_all add: transformPoint_def nanPoint_def numericPoint_def)

lemma componentContours_identity:
  assumes "m00 c = 1" "m01 c = 0" "m10 c = 0" "m11 c = 1" "cDx c = 0" "cDy c = 0"
  shows "componentContours c baseGlyph = map (map nanPoint) (contoursOf baseGlyph)"
proof -
  have "transformPoint c = nanPoint"
    using transformPoint_identity [OF assms] by (rule ext)
  then show ?thesis
    by (simp add: componentContours_def contoursOf_def split: option.splits)
qed

lemma nanPoint_numeric:
  "numericContours cs \<Longrightarrow> map (map nanPoint) cs = cs"
  by (simp add: numericContours_def list_all_iff nanPoint_def map_idI)

text \<open>One turn of the component loop, in terms of \<open>parseTrueTypeGlyph\<close>.\<close>

lemma parseComponents_step:
  assumes "readComponent (buffer f) off = Inr (c, off1)"
    and "parseTrueTypeGlyph f (cGlyphIndex c) off1 = Some (Inr (baseGlyph, off3))"
  shows "parseComponents f off allContours =
           (if hasBit (cFlags c) 32
            then parseComponents f off3 (allContours @ componentContours c baseGlyph)
            else Some (Inr ((allContours @ componentContours c baseGlyph, cFlags c), off3)))"
proof -
  have "parseComponents f off allContours =
          Option.bind (parseTrueTypeGlyph f (cGlyphIndex c) off1)
            (\<lambda>r. case r of
                    Inl e \<Rightarrow> Some (Inl e)
                  | Inr (baseGlyph, off3) \<Rightarrow>
                      if hasBit (cFlags c) 32
                      then parseComponents f off3 (allContours @ componentContours c baseGlyph)
                      else Some (Inr ((allContours @ componentContours c baseGlyph, cFlags c),
                                      off3)))"
    unfolding parseTrueTypeGlyph_def parseCompositeGlyph_def
    by (subst parseComponents.simps) (simp add: assms(1))
  then show ?thesis by (simp add: assms(2))
qed

text \<open>
  C7, as amended. Let a component of a composite glyph have the identity matrix and the
  offset (0, 0), and let \<open>baseGlyph\<close> be the glyph \<open>parseTrueTypeGlyph\<close> decodes for it.
  The contours the component appends are the contours of \<open>baseGlyph\<close> with every point
  that has a coordinate which is not a number given the coordinates \<open>NaN\<close>; they are
  exactly the contours of \<open>baseGlyph\<close> when all its points have numbers as coordinates.
\<close>

theorem identity_component_contours:
  assumes "readComponent (buffer f) off = Inr (c, off1)"
    and "m00 c = 1" and "m01 c = 0" and "m10 c = 0" and "m11 c = 1"
    and "cDx c = 0" and "cDy c = 0"
    and "parseTrueTypeGlyph f (cGlyphIndex c) off1 = Some (Inr (baseGlyph, off3))"
  shows "parseComponents f off allContours =
           (if hasBit (cFlags c) 32
            then parseComponents f off3 (allContours @ map (map nanPoint) (contoursOf baseGlyph))
            else Some (Inr ((allContours @ map (map nanPoint) (contoursOf baseGlyph), cFlags c),
                            off3)))
         \<and> (numericContours (contoursOf baseGlyph) \<longrightarrow>
              map (map nanPoint) (contoursOf baseGlyph) = contoursOf baseGlyph)"
  using parseComponents_step [OF assms(1) assms(8), of allContours]
    componentContours_identity [OF assms(2-7), of baseGlyph] nanPoint_numeric
  by simp

text \<open>In \<open>compositeFont\<close> the component of glyph 0 is glyph 1, the point (5, 7).\<close>

lemmas tt_defs = parseSimpleGlyph_def readFlags.simps hasBit_def pointAt_def coordAt_def upt_rec

lemma compositeFont_component:
  "readComponent (buffer compositeFont) 10 =
     Inr (\<lparr> cFlags = 2, cGlyphIndex = 1, cDx = 0, cDy = 0, m00 = 1, m01 = 0, m10 = 0, m11 = 1 \<rparr>, 16)"
  by (simp add: readComponent_def compositeFont_def newParser_def reader_defs hasBit_def
      numeral_2_eq_2 [symmetric])

lemma compositeFont_glyph1:
  "parseTrueTypeGlyph compositeFont 1 16 =
     Some (Inr (Some \<lparr> contours = [[\<lparr> px = Num 5, py = Num 7, onCurve = True, cubic = None \<rparr>]] \<rparr>, 33))"
proof -
  have h: "glyphHeader compositeFont (Suc 0) 16 = Inr (SimpleGlyph (Suc 0), 26)"
    by (simp add: glyphHeader_def compositeFont_def newParser_def reader_defs)
  have s: "parseSimpleGlyph (buffer compositeFont) (Suc 0) 26 =
     Inr (\<lparr> contours = [[\<lparr> px = Num 5, py = Num 7, onCurve = True, cubic = None \<rparr>]] \<rparr>, 33)"
    by (simp add: compositeFont_def newParser_def reader_defs tt_defs)
  show ?thesis by (simp add: parseTrueTypeGlyph_def h s simpleResult_def)
qed

theorem identity_component_contours_witness:
  "parseTrueTypeGlyph compositeFont 1 16 =
     Some (Inr (Some \<lparr> contours = [[\<lparr> px = Num 5, py = Num 7, onCurve = True, cubic = None \<rparr>]] \<rparr>, 33))
   \<and> parseComponents compositeFont 10 [] =
       Some (Inr (([[\<lparr> px = Num 5, py = Num 7, onCurve = True, cubic = None \<rparr>]], 2), 33))"
proof -
  let ?c = "\<lparr> cFlags = 2, cGlyphIndex = 1, cDx = 0, cDy = 0, m00 = 1, m01 = 0, m10 = 0, m11 = 1 \<rparr>"
  let ?g = "Some \<lparr> contours = [[\<lparr> px = Num 5, py = Num 7, onCurve = True, cubic = None \<rparr>]] \<rparr>"
  have g: "parseTrueTypeGlyph compositeFont (cGlyphIndex ?c) 16 = Some (Inr (?g, 33))"
    using compositeFont_glyph1 by simp
  have n: "numericContours (contoursOf ?g)"
    by (simp add: numericContours_def contoursOf_def numericPoint_def)
  from identity_component_contours [OF compositeFont_component _ _ _ _ _ _ g, of "[]"] n
  have "parseComponents compositeFont 10 [] =
       Some (Inr (([[\<lparr> px = Num 5, py = Num 7, onCurve = True, cubic = None \<rparr>]], 2), 33))"
    by (simp add: hasBit_def contoursOf_def)
  with compositeFont_glyph1 show ?thesis by simp
qed

lemma undefinedCoordFont_component:
  "readComponent (buffer undefinedCoordFont) 10 =
     Inr (\<lparr> cFlags = 2, cGlyphIndex = 1, cDx = 0, cDy = 0, m00 = 1, m01 = 0, m10 = 0, m11 = 1 \<rparr>, 16)"
  by (simp add: readComponent_def undefinedCoordFont_def newParser_def reader_defs hasBit_def
      numeral_2_eq_2 [symmetric])

lemma undefinedCoordFont_glyph1:
  "parseTrueTypeGlyph undefinedCoordFont 1 off =
     Some (Inr (Some \<lparr> contours =
                         [[\<lparr> px = Num 0, py = Num 0, onCurve = True, cubic = None \<rparr>,
                           \<lparr> px = Undefined, py = Undefined, onCurve = False, cubic = None \<rparr>],
                          []] \<rparr>, 33))"
proof -
  have h: "glyphHeader undefinedCoordFont (Suc 0) off = Inr (SimpleGlyph 2, 26)"
    by (simp add: glyphHeader_def undefinedCoordFont_def newParser_def reader_defs)
  have s: "parseSimpleGlyph (buffer undefinedCoordFont) 2 26 =
     Inr (\<lparr> contours =
             [[\<lparr> px = Num 0, py = Num 0, onCurve = True, cubic = None \<rparr>,
               \<lparr> px = Undefined, py = Undefined, onCurve = False, cubic = None \<rparr>],
              []] \<rparr>, 33)"
    by (simp add: undefinedCoordFont_def newParser_def reader_defs tt_defs)
  show ?thesis by (simp add: parseTrueTypeGlyph_def h s simpleResult_def)
qed

text \<open>
  C7 as stated fails where the component glyph has a point without coordinates. In
  \<open>undefinedCoordFont\<close> glyph 1 has one point and a first contour that ends at the point
  index 1: decoded directly, its second point has the coordinates \<open>undefined\<close>; as the
  component of glyph 0, with the identity matrix and the offset (0, 0), that point has
  the coordinates \<open>NaN\<close>.
\<close>

theorem identity_component_undefined_coordinates:
  "readComponent (buffer undefinedCoordFont) 10 =
     Inr (\<lparr> cFlags = 2, cGlyphIndex = 1, cDx = 0, cDy = 0,
            m00 = 1, m01 = 0, m10 = 0, m11 = 1 \<rparr>, 16)
   \<and> parseTrueTypeGlyph undefinedCoordFont 1 16 =
       Some (Inr (Some \<lparr> contours =
                           [[\<lparr> px = Num 0, py = Num 0, onCurve = True, cubic = None \<rparr>,
                             \<lparr> px = Undefined, py = Undefined, onCurve = False,
                               cubic = None \<rparr>],
                            []] \<rparr>, 33))
   \<and> parseComponents undefinedCoordFont 10 [] =
       Some (Inr (([[\<lparr> px = Num 0, py = Num 0, onCurve = True, cubic = None \<rparr>,
                     \<lparr> px = NaN, py = NaN, onCurve = False, cubic = None \<rparr>], []], 2), 33))
   \<and> [[\<lparr> px = Num 0, py = Num 0, onCurve = True, cubic = None \<rparr>,
         \<lparr> px = NaN, py = NaN, onCurve = False, cubic = None \<rparr>], []]
       \<noteq> [[\<lparr> px = Num 0, py = Num 0, onCurve = True, cubic = None \<rparr>,
            \<lparr> px = Undefined, py = Undefined, onCurve = False, cubic = None \<rparr>], []]"
proof -
  have g: "parseTrueTypeGlyph undefinedCoordFont
             (cGlyphIndex \<lparr> cFlags = 2, cGlyphIndex = 1, cDx = 0, cDy = 0,
                            m00 = 1, m01 = 0, m10 = 0, m11 = 1 \<rparr>) 16 =
       Some (Inr (Some \<lparr> contours =
                           [[\<lparr> px = Num 0, py = Num 0, onCurve = True, cubic = None \<rparr>,
                             \<lparr> px = Undefined, py = Undefined, onCurve = False,
                               cubic = None \<rparr>],
                            []] \<rparr>, 33))"
    using undefinedCoordFont_glyph1 [of 16] by simp
  have p: "parseComponents undefinedCoordFont 10 [] =
       Some (Inr (([[\<lparr> px = Num 0, py = Num 0, onCurve = True, cubic = None \<rparr>,
                     \<lparr> px = NaN, py = NaN, onCurve = False, cubic = None \<rparr>], []], 2), 33))"
    by (simp add: parseComponents_step [OF undefinedCoordFont_component g]
        hasBit_def componentContours_def transformPoint_def)
  with undefinedCoordFont_component undefinedCoordFont_glyph1 [of 16] show ?thesis by simp
qed

text \<open>The same glyph 0 decoded as a whole.\<close>

lemma undefinedCoordFont_glyph0:
  "parseTrueTypeGlyph undefinedCoordFont 0 0 =
       Some (Inr (Some \<lparr> contours =
                           [[\<lparr> px = Num 0, py = Num 0, onCurve = True, cubic = None \<rparr>,
                             \<lparr> px = NaN, py = NaN, onCurve = False, cubic = None \<rparr>],
                            []] \<rparr>, 33))"
proof -
  have h: "glyphHeader undefinedCoordFont 0 0 = Inr (CompositeGlyph, 10)"
    by (simp add: glyphHeader_def undefinedCoordFont_def newParser_def reader_defs)
  have g: "parseTrueTypeGlyph undefinedCoordFont
             (cGlyphIndex \<lparr> cFlags = 2, cGlyphIndex = 1, cDx = 0, cDy = 0,
                            m00 = 1, m01 = 0, m10 = 0, m11 = 1 \<rparr>) 16 =
       Some (Inr (Some \<lparr> contours =
                           [[\<lparr> px = Num 0, py = Num 0, onCurve = True, cubic = None \<rparr>,
                             \<lparr> px = Undefined, py = Undefined, onCurve = False,
                               cubic = None \<rparr>],
                            []] \<rparr>, 33))"
    using undefinedCoordFont_glyph1 [of 16] by simp
  have p: "parseComponents undefinedCoordFont 10 [] =
       Some (Inr (([[\<lparr> px = Num 0, py = Num 0, onCurve = True, cubic = None \<rparr>,
                     \<lparr> px = NaN, py = NaN, onCurve = False, cubic = None \<rparr>], []], 2), 33))"
    by (simp add: parseComponents_step [OF undefinedCoordFont_component g]
        hasBit_def componentContours_def transformPoint_def)
  show ?thesis
    by (simp add: parseTrueTypeGlyph_def h parseCompositeGlyph_def p finishComposite_def
        hasBit_def)
qed

section \<open>A format-12 subtable in the standard layout\<close>

text \<open>
  Between the format field and the number of groups a format-12 subtable has ten bytes
  (reserved, length, language); \<open>_parseCmapFormat12\<close> skips eight. On the subtable of one
  group in the standard layout it reads the number of groups two bytes early, finds 0,
  and stores nothing; the static parser reads the group.
\<close>

theorem format12_standard_layout_read_early:
  "parseCmapSubtable
     [0, 12, 0, 0, 0, 0, 0, 28, 0, 0, 0, 0, 0, 0, 0, 1, 0, 0, 0, 65, 0, 0, 0, 65, 0, 0, 0, 36]
     0 Map.empty = Inr Map.empty
   \<and> static_parseCmapFormat12
     [0, 12, 0, 0, 0, 0, 0, 28, 0, 0, 0, 0, 0, 0, 0, 1, 0, 0, 0, 65, 0, 0, 0, 65, 0, 0, 0, 36]
     0 Map.empty = Inr [65 \<mapsto> 36]"
  by (simp add: parseCmapSubtable_def parseCmapFormat12_def static_parseCmapFormat12_def
      reader_defs upt_rec)

end
